theory Spec2Isabelle
  imports
    Main
    "HOL-Library.AList"
    "HOL-Library.Char_ord"
    "HOL-Library.List_Lexorder"
    "HOL-Library.Product_Lexorder"
begin

section \<open>Suspended frames registry of pydevd (pydevd_suspended_frames.py)\<close>

text \<open>
  A shallow embedding of \<^verbatim>\<open>_AbstractVariable\<close>, \<^verbatim>\<open>_ObjectVariable\<close>,
  \<^verbatim>\<open>_FrameVariable\<close>, \<^verbatim>\<open>_FramesTracker\<close> and \<^verbatim>\<open>SuspendedFramesManager\<close>.

  \<^item> A Python dict is an association list in insertion order: \<open>map_of\<close> is
    \<^verbatim>\<open>d.get(k)\<close>, \<open>AList.update\<close> is \<^verbatim>\<open>d[k] = v\<close> (an existing key keeps its
    place, a new key goes last), \<open>AList.delete\<close> is \<^verbatim>\<open>d.pop(k, None)\<close>.
  \<^item> An exception is a value of \<open>py_error\<close>. A method that mutates objects and may
    raise returns the pair of its outcome and the state reached, since the mutations
    done before a raise stay done.
  \<^item> The tracker objects live in a store (\<open>trackers\<close>, a list; a reference is an
    index), because the manager's two indices alias them.
  \<^item> The locks are left out: the model is sequential.
\<close>

subsection \<open>Errors and dicts\<close>

datatype py_error = KeyError | IndexError | AttributeError | ValueError | NotImplementedError

text \<open>\<^verbatim>\<open>del d[k]\<close>: raises KeyError when the key is missing.\<close>

definition dict_del :: "('k \<times> 'a) list \<Rightarrow> 'k \<Rightarrow> py_error + ('k \<times> 'a) list" where
  "dict_del d k = (if k \<in> fst ` set d then Inr (AList.delete k d) else Inl KeyError)"

text \<open>\<^verbatim>\<open>d.setdefault(k, v)\<close>, the dict after the call.\<close>

definition dict_setdefault :: "('k \<times> 'a) list \<Rightarrow> 'k \<Rightarrow> 'a \<Rightarrow> ('k \<times> 'a) list" where
  "dict_setdefault d k v = (case map_of d k of None \<Rightarrow> d @ [(k, v)] | Some _ \<Rightarrow> d)"

subsection \<open>Python values, frames and the collaborators outside this module\<close>

text \<open>
  A frame object: \<^verbatim>\<open>id(frame)\<close>, \<^verbatim>\<open>frame.f_code.co_name\<close>, \<^verbatim>\<open>frame.f_locals\<close> and
  \<^verbatim>\<open>frame.f_back\<close> (\<open>None\<close> at the bottom of the stack).
\<close>

datatype 'v frame =
  Frame (frame_ident: int) (co_name: string) (f_locals: "(string \<times> 'v) list")
    (f_back: "'v frame option")

text \<open>The format dict of the DAP (keys \<^verbatim>\<open>'hex'\<close>, \<^verbatim>\<open>'rawString'\<close>) and \<^verbatim>\<open>SafeRepr\<close>.\<close>

type_synonym fmt = "(string \<times> bool) list"

record safe_repr =
  convert_to_hex :: bool
  raw_value :: bool

text \<open>
  What a resolver yields as the evaluate name of a child: a string appended to the
  parent's evaluate name, or a callable applied to it.
\<close>

datatype evaluate_suffix = Literal string | Callable "string \<Rightarrow> string"

text \<open>
  A resolver either has \<^verbatim>\<open>get_contents_debug_adapter_protocol(value, fmt=fmt)\<close> or
  only \<^verbatim>\<open>get_dictionary(value)\<close>.
\<close>

datatype 'v resolver =
  DapResolver "'v \<Rightarrow> fmt option \<Rightarrow> (string \<times> 'v \<times> evaluate_suffix option) list"
| DictResolver "'v \<Rightarrow> (string \<times> 'v) list"

text \<open>
  The names this module imports or takes from the interpreter, as parameters:
  \<^verbatim>\<open>id\<close>, \<^verbatim>\<open>'%r' % name\<close>, \<^verbatim>\<open>int\<close> (\<open>None\<close>: ValueError), \<^verbatim>\<open>RETURN_VALUES_DICT\<close>,
  \<^verbatim>\<open>dict_iter_items\<close> (\<open>None\<close>: the value has no items, AttributeError),
  \<^verbatim>\<open>get_type\<close> and \<^verbatim>\<open>get_variable_details\<close> (of each the resolver and the strings this
  module reads), \<^verbatim>\<open>sorted_attributes_key\<close>, a fresh \<^verbatim>\<open>SafeRepr()\<close> and \<^verbatim>\<open>get_frame()\<close>.
\<close>

record 'v pyenv =
  py_id :: "'v \<Rightarrow> int"
  py_repr :: "string \<Rightarrow> string"
  py_int :: "string \<Rightarrow> int option"
  RETURN_VALUES_DICT :: string
  dict_iter_items :: "'v \<Rightarrow> (string \<times> 'v) list option"
  get_type :: "'v \<Rightarrow> 'v resolver option"
  get_variable_details :: "'v \<Rightarrow> safe_repr \<Rightarrow> string \<times> 'v resolver option \<times> string"
  sorted_attributes_key :: "string \<Rightarrow> nat \<times> string"
  SafeRepr :: safe_repr
  get_frame :: "py_error + 'v frame"

subsection \<open>Variable nodes\<close>

text \<open>
  The two subclasses of \<^verbatim>\<open>_AbstractVariable\<close>. An \<^verbatim>\<open>_ObjectVariable\<close> has \<^verbatim>\<open>name\<close>,
  \<^verbatim>\<open>value\<close>, \<^verbatim>\<open>_is_return_value\<close> and \<^verbatim>\<open>evaluate_name\<close>; a \<^verbatim>\<open>_FrameVariable\<close> has its
  frame, which is also its \<^verbatim>\<open>value\<close>, and the name \<^verbatim>\<open>frame.f_code.co_name\<close>. Neither
  class has a field that holds children.
\<close>

datatype 'v variable =
  ObjectVariable (var_name: string) (var_value: 'v) (var_is_return_value: bool)
    (var_evaluate_name: "string option")
| FrameVariable (var_frame: "'v frame")

fun get_name :: "'v variable \<Rightarrow> string" where
  "get_name (ObjectVariable name v is_ret ev) = name"
| "get_name (FrameVariable frame) = co_name frame"

text \<open>\<^verbatim>\<open>get_variable_reference\<close>: \<^verbatim>\<open>id(self.value)\<close>.\<close>

fun get_variable_reference :: "'v pyenv \<Rightarrow> 'v variable \<Rightarrow> int" where
  "get_variable_reference env (ObjectVariable name v is_ret ev) = py_id env v"
| "get_variable_reference env (FrameVariable frame) = frame_ident frame"

text \<open>The dict \<^verbatim>\<open>get_var_data\<close> returns; an optional key is an option.\<close>

record var_data =
  vd_name :: string
  vd_value :: string
  vd_type :: string
  vd_evaluateName :: "string option"
  vd_variablesReference :: "int option"
  vd_presentationHint :: "string list option"

definition fmt_get :: "fmt \<Rightarrow> string \<Rightarrow> bool" where
  "fmt_get d k = (case map_of d k of None \<Rightarrow> False | Some b \<Rightarrow> b)"

text \<open>
  \<^verbatim>\<open>get_var_data\<close>. A \<^verbatim>\<open>_FrameVariable\<close> has no \<^verbatim>\<open>_is_return_value\<close> attribute, so the
  method raises there.
\<close>

fun get_var_data :: "'v pyenv \<Rightarrow> 'v variable \<Rightarrow> fmt option \<Rightarrow> py_error + var_data" where
  "get_var_data env (FrameVariable frame) fmt = Inl AttributeError"
| "get_var_data env (ObjectVariable name v is_ret ev) fmt =
    (let sr = (case fmt of
                 None \<Rightarrow> SafeRepr env
               | Some d \<Rightarrow> (SafeRepr env)\<lparr>convert_to_hex := fmt_get d ''hex'',
                                           raw_value := fmt_get d ''rawString''\<rparr>);
         (type_name, resolver, val_str) = get_variable_details env v sr;
         is_raw_string = (type_name \<in> set [''str'', ''unicode'', ''bytes'', ''bytearray'']);
         attributes = (if is_raw_string then [''rawString''] else [])
                      @ (if is_ret then [''readOnly''] else []);
         shown = (if is_ret then ''(return) '' @ name else name)
     in Inr \<lparr>vd_name = shown, vd_value = val_str, vd_type = type_name,
             vd_evaluateName = ev,
             vd_variablesReference =
               (case resolver of None \<Rightarrow> None | Some _ \<Rightarrow> Some (py_id env v)),
             vd_presentationHint = (if attributes \<noteq> [] then Some attributes else None)\<rparr>)"

subsection \<open>The tracker's state and the registration of nodes\<close>

text \<open>
  The fields of \<^verbatim>\<open>_FramesTracker\<close>. \<open>suspended_frames_manager\<close> tells whether the
  back-reference to the manager is set (\<^verbatim>\<open>untrack_all\<close> sets it to \<open>None\<close>).
\<close>

record 'v frames_tracker =
  suspended_frames_manager :: bool
  frame_id_to_frame :: "(int \<times> 'v frame) list"
  frame_id_to_main_thread_id :: "(int \<times> string) list"
  thread_id_to_frame_ids :: "(string \<times> int list) list"
  frame_id_to_lineno :: "(int \<times> int) list"
  main_thread_id :: "string option"
  untracked :: bool
  variable_reference_to_variable :: "(int \<times> 'v variable) list"

definition FramesTracker_init :: "'v frames_tracker" where
  "FramesTracker_init =
    \<lparr>suspended_frames_manager = True, frame_id_to_frame = [],
     frame_id_to_main_thread_id = [], thread_id_to_frame_ids = [],
     frame_id_to_lineno = [], main_thread_id = None, untracked = False,
     variable_reference_to_variable = []\<rparr>"

definition register_variable :: "'v pyenv \<Rightarrow> 'v variable \<Rightarrow> 'v frames_tracker \<Rightarrow> 'v frames_tracker" where
  "register_variable env var t =
    t\<lparr>variable_reference_to_variable :=
        AList.update (get_variable_reference env var) var (variable_reference_to_variable t)\<rparr>"

text \<open>
  \<^verbatim>\<open>_ObjectVariable.__init__\<close>: the new node, and the tracker it registered itself in
  (the node's \<^verbatim>\<open>_register_variable\<close> is the bound method of its tracker, which the
  model passes along).
\<close>

definition new_ObjectVariable ::
  "'v pyenv \<Rightarrow> string \<Rightarrow> 'v \<Rightarrow> bool \<Rightarrow> string option \<Rightarrow> 'v frames_tracker
    \<Rightarrow> 'v variable \<times> 'v frames_tracker" where
  "new_ObjectVariable env name v is_ret ev t =
    (let var = ObjectVariable name v is_ret ev in (var, register_variable env var t))"

text \<open>A \<^verbatim>\<open>for\<close> loop that builds one \<^verbatim>\<open>_ObjectVariable\<close> per entry and appends it.\<close>

fun new_variables ::
  "'v pyenv \<Rightarrow> (string \<times> 'v \<times> bool \<times> string option) list \<Rightarrow> 'v frames_tracker
    \<Rightarrow> 'v variable list \<times> 'v frames_tracker" where
  "new_variables env [] t = ([], t)"
| "new_variables env ((name, v, is_ret, ev) # rest) t =
    (let (var, t1) = new_ObjectVariable env name v is_ret ev t;
         (vars, t2) = new_variables env rest t1
     in (var # vars, t2))"

subsection \<open>Children of a node\<close>

text \<open>Python's truth value of \<^verbatim>\<open>self.evaluate_name\<close>: \<open>None\<close> and \<^verbatim>\<open>''\<close> are false.\<close>

fun child_evaluate_name :: "string option \<Rightarrow> evaluate_suffix option \<Rightarrow> string option" where
  "child_evaluate_name None suffix = None"
| "child_evaluate_name (Some parent) suffix =
    (if parent = [] then None
     else (case suffix of
             None \<Rightarrow> None
           | Some (Callable f) \<Rightarrow> Some (f parent)
           | Some (Literal s) \<Rightarrow> Some (parent @ s)))"

text \<open>The list \<^verbatim>\<open>lst\<close> of \<^verbatim>\<open>_ObjectVariable.get_children_variables\<close>.\<close>

definition resolver_contents ::
  "'v pyenv \<Rightarrow> 'v resolver \<Rightarrow> 'v \<Rightarrow> fmt option \<Rightarrow> (string \<times> 'v \<times> evaluate_suffix option) list" where
  "resolver_contents env resolver v fmt =
    (case resolver of
       DapResolver contents \<Rightarrow> contents v fmt
     | DictResolver get_dictionary \<Rightarrow>
         map (\<lambda>(key, val). (key, val, None))
           (sort_key (\<lambda>tup. sorted_attributes_key env (fst tup)) (get_dictionary v)))"

text \<open>
  \<^verbatim>\<open>_ObjectVariable.get_children_variables\<close> and \<^verbatim>\<open>_FrameVariable.get_children_variables\<close>:
  the children and the tracker after their registration. Every call builds the list
  anew.
\<close>

fun frame_children ::
  "'v pyenv \<Rightarrow> (string \<times> 'v) list \<Rightarrow> 'v frames_tracker
    \<Rightarrow> (py_error + 'v variable list) \<times> 'v frames_tracker" where
  "frame_children env [] t = (Inr [], t)"
| "frame_children env ((key, val) # rest) t =
    (if key = RETURN_VALUES_DICT env then
       (case dict_iter_items env val of
          None \<Rightarrow> (Inl AttributeError, t)
        | Some items \<Rightarrow>
            (let (vars, t1) =
                   new_variables env
                     (map (\<lambda>(return_key, return_value).
                        (return_key, return_value, True,
                         Some (key @ ''['' @ py_repr env return_key @ '']''))) items) t
             in (case frame_children env rest t1 of
                   (Inl e, t2) \<Rightarrow> (Inl e, t2)
                 | (Inr others, t2) \<Rightarrow> (Inr (vars @ others), t2))))
     else
       (let (var, t1) = new_ObjectVariable env key val False (Some key) t
        in (case frame_children env rest t1 of
              (Inl e, t2) \<Rightarrow> (Inl e, t2)
            | (Inr others, t2) \<Rightarrow> (Inr (var # others), t2))))"

definition sorted_variables_key :: "'v pyenv \<Rightarrow> 'v variable \<Rightarrow> nat \<times> string" where
  "sorted_variables_key env obj = sorted_attributes_key env (get_name obj)"

fun get_children_variables ::
  "'v pyenv \<Rightarrow> 'v variable \<Rightarrow> fmt option \<Rightarrow> 'v frames_tracker
    \<Rightarrow> (py_error + 'v variable list) \<times> 'v frames_tracker" where
  "get_children_variables env (ObjectVariable name v is_ret ev) fmt t =
    (case get_type env v of
       None \<Rightarrow> (Inr [], t)
     | Some resolver \<Rightarrow>
         (let lst = resolver_contents env resolver v fmt;
              (vars, t1) =
                new_variables env
                  (map (\<lambda>(key, val, suffix). (key, val, False, child_evaluate_name ev suffix))
                     lst) t
          in (Inr vars, t1)))"
| "get_children_variables env (FrameVariable frame) fmt t =
    (case frame_children env (f_locals frame) t of
       (Inl e, t1) \<Rightarrow> (Inl e, t1)
     | (Inr vars, t1) \<Rightarrow> (Inr (sort_key (sorted_variables_key env) vars), t1))"

subsection \<open>The manager with its trackers\<close>

text \<open>
  What the process writes to \<^verbatim>\<open>sys.stderr\<close>: the warning of \<^verbatim>\<open>track\<close> and the
  traceback that \<^verbatim>\<open>traceback.print_exc()\<close> prints for a caught exception.
\<close>

datatype log_event = StderrWrite string | PrintExc py_error

text \<open>
  The fields of \<^verbatim>\<open>SuspendedFramesManager\<close>, the store of the tracker objects made for
  it, and the output written so far.
\<close>

record 'v world =
  thread_id_to_fake_frames :: "(string \<times> (int \<times> 'v frame) list) list"
  thread_id_to_tracker :: "(string \<times> nat) list"
  variable_reference_to_frames_tracker :: "(int \<times> nat) list"
  trackers :: "'v frames_tracker list"
  stderr :: "log_event list"

definition SuspendedFramesManager_init :: "'v world" where
  "SuspendedFramesManager_init =
    \<lparr>thread_id_to_fake_frames = [], thread_id_to_tracker = [],
     variable_reference_to_frames_tracker = [], trackers = [], stderr = []\<rparr>"

text \<open>
  \<^verbatim>\<open>_FramesTracker(self, py_db)\<close>, as \<^verbatim>\<open>track_frames\<close> calls it: the reference of the
  new tracker and the store that holds it.
\<close>

definition new_FramesTracker :: "'v world \<Rightarrow> nat \<times> 'v world" where
  "new_FramesTracker w = (length (trackers w), w\<lparr>trackers := trackers w @ [FramesTracker_init]\<rparr>)"

subsection \<open>\<^verbatim>\<open>_FramesTracker\<close>\<close>

text \<open>
  \<^verbatim>\<open>obtain_as_variable\<close>: the node registered under \<^verbatim>\<open>id(value)\<close> when there is one, a
  new \<^verbatim>\<open>_ObjectVariable\<close> otherwise.
\<close>

definition obtain_as_variable ::
  "'v pyenv \<Rightarrow> string \<Rightarrow> 'v \<Rightarrow> string option \<Rightarrow> 'v frames_tracker
    \<Rightarrow> 'v variable \<times> 'v frames_tracker" where
  "obtain_as_variable env name v evaluate_name t =
    (let evaluate_name = (case evaluate_name of None \<Rightarrow> name | Some e \<Rightarrow> e);
         variable_reference = py_id env v
     in (case map_of (variable_reference_to_variable t) variable_reference of
           Some variable \<Rightarrow> (variable, t)
         | None \<Rightarrow> new_ObjectVariable env name v False (Some evaluate_name) t))"

definition get_main_thread_id :: "'v frames_tracker \<Rightarrow> string option" where
  "get_main_thread_id t = main_thread_id t"

definition FramesTracker_get_variable :: "'v frames_tracker \<Rightarrow> int \<Rightarrow> py_error + 'v variable" where
  "FramesTracker_get_variable t variable_reference =
    (case map_of (variable_reference_to_variable t) variable_reference of
       None \<Rightarrow> Inl KeyError
     | Some variable \<Rightarrow> Inr variable)"

text \<open>\<^verbatim>\<open>frame_custom_thread_id or thread_id\<close>: \<open>None\<close> and the empty string are false.\<close>

definition coroutine_or_main_thread_id :: "string \<Rightarrow> string option \<Rightarrow> string" where
  "coroutine_or_main_thread_id thread_id frame_custom_thread_id =
    (case frame_custom_thread_id of
       None \<Rightarrow> thread_id
     | Some c \<Rightarrow> if c = [] then thread_id else c)"

text \<open>
  The body of the \<^verbatim>\<open>while frame is not None\<close> loop of \<^verbatim>\<open>track\<close>, for the tracker at
  reference \<open>r\<close>. \<open>frame_ids_from_thread\<close> is the list object the loop appends to,
  which is the entry of \<^verbatim>\<open>_thread_id_to_frame_ids\<close> under the effective id \<open>cid\<close>.
\<close>

definition track_frame ::
  "'v pyenv \<Rightarrow> nat \<Rightarrow> string \<Rightarrow> string \<Rightarrow> int list \<Rightarrow> 'v frame \<Rightarrow> 'v world \<Rightarrow> 'v world" where
  "track_frame env r thread_id cid frame_ids_from_thread frame w =
    (let frame_id = frame_ident frame;
         t = trackers w ! r;
         t1 = t\<lparr>frame_id_to_frame := AList.update frame_id frame (frame_id_to_frame t)\<rparr>;
         t2 = register_variable env (FrameVariable frame) t1;
         t3 = t2\<lparr>thread_id_to_frame_ids :=
                    AList.update cid (frame_ids_from_thread @ [frame_id])
                      (thread_id_to_frame_ids t2),
                  frame_id_to_main_thread_id :=
                    AList.update frame_id thread_id (frame_id_to_main_thread_id t2)\<rparr>
     in w\<lparr>variable_reference_to_frames_tracker :=
            AList.update frame_id r (variable_reference_to_frames_tracker w),
          trackers := (trackers w)[r := t3]\<rparr>)"

text \<open>The loop: one pass of the body per frame, then on to \<^verbatim>\<open>frame.f_back\<close>.\<close>

fun track_loop ::
  "'v pyenv \<Rightarrow> nat \<Rightarrow> string \<Rightarrow> string \<Rightarrow> int list \<Rightarrow> 'v frame option \<Rightarrow> 'v world \<Rightarrow> 'v world" where
  "track_loop env r thread_id cid frame_ids_from_thread None w = w"
| "track_loop env r thread_id cid frame_ids_from_thread (Some (Frame fid nm locals back)) w =
    track_loop env r thread_id cid (frame_ids_from_thread @ [fid]) back
      (track_frame env r thread_id cid frame_ids_from_thread (Frame fid nm locals back) w)"

text \<open>
  \<^verbatim>\<open>track\<close>. After \<^verbatim>\<open>untrack_all\<close> the tracker has no manager, and the first line that
  reads it raises AttributeError.
\<close>

definition track ::
  "'v pyenv \<Rightarrow> nat \<Rightarrow> string \<Rightarrow> 'v frame option \<Rightarrow> (int \<times> int) list \<Rightarrow> string option
    \<Rightarrow> 'v world \<Rightarrow> (py_error + unit) \<times> 'v world" where
  "track env r thread_id frame linenos frame_custom_thread_id w =
    (let t = trackers w ! r;
         cid = coroutine_or_main_thread_id thread_id frame_custom_thread_id
     in if \<not> suspended_frames_manager t then (Inl AttributeError, w)
        else
          (let w1 = (if cid \<in> fst ` set (thread_id_to_tracker w)
                     then w\<lparr>stderr := stderr w @
                       [StderrWrite (''pydevd: Something is wrong. Tracker being added twice to the same thread id.''
                          @ [CHR 0x0A])]\<rparr>
                     else w);
               t1 = t\<lparr>main_thread_id := Some thread_id,
                        frame_id_to_lineno := linenos,
                        thread_id_to_frame_ids := dict_setdefault (thread_id_to_frame_ids t) cid []\<rparr>;
               frame_ids_from_thread =
                 (case map_of (thread_id_to_frame_ids t) cid of None \<Rightarrow> [] | Some ids \<Rightarrow> ids);
               w2 = w1\<lparr>thread_id_to_tracker := AList.update cid r (thread_id_to_tracker w1),
                        trackers := (trackers w1)[r := t1]\<rparr>
           in (Inr (), track_loop env r thread_id cid frame_ids_from_thread frame w2)))"

text \<open>
  \<^verbatim>\<open>untrack_all\<close>. The loop over \<^verbatim>\<open>_frame_id_to_frame\<close> deletes each frame id from the
  manager's index with \<^verbatim>\<open>del\<close>; it stops at the first missing key, with the entries
  before it deleted.
\<close>

fun del_frame_ids :: "int list \<Rightarrow> (int \<times> nat) list \<Rightarrow> (py_error + unit) \<times> (int \<times> nat) list" where
  "del_frame_ids [] index = (Inr (), index)"
| "del_frame_ids (frame_id # rest) index =
    (case dict_del index frame_id of
       Inl e \<Rightarrow> (Inl e, index)
     | Inr index1 \<Rightarrow> del_frame_ids rest index1)"

definition clear_tracker :: "'v frames_tracker \<Rightarrow> 'v frames_tracker" where
  "clear_tracker t =
    t\<lparr>frame_id_to_frame := [], frame_id_to_main_thread_id := [],
      thread_id_to_frame_ids := [], frame_id_to_lineno := [],
      main_thread_id := None, suspended_frames_manager := False,
      variable_reference_to_variable := []\<rparr>"

definition untrack_all :: "nat \<Rightarrow> 'v world \<Rightarrow> (py_error + unit) \<times> 'v world" where
  "untrack_all r w =
    (let t = trackers w ! r
     in if untracked t then (Inr (), w)
        else
          (let t1 = t\<lparr>untracked := True\<rparr>;
               w1 = w\<lparr>trackers := (trackers w)[r := t1]\<rparr>;
               thread_ids = map fst (thread_id_to_frame_ids t1);
               frame_ids = map fst (frame_id_to_frame t1)
           in if \<not> suspended_frames_manager t1 \<and> (thread_ids \<noteq> [] \<or> frame_ids \<noteq> [])
              then (Inl AttributeError, w1)
              else
                (let w2 = w1\<lparr>thread_id_to_tracker :=
                              foldl (\<lambda>d thread_id. AList.delete thread_id d)
                                (thread_id_to_tracker w1) thread_ids\<rparr>
                 in (case del_frame_ids frame_ids (variable_reference_to_frames_tracker w2) of
                       (Inl e, index) \<Rightarrow>
                         (Inl e, w2\<lparr>variable_reference_to_frames_tracker := index\<rparr>)
                     | (Inr u, index) \<Rightarrow>
                         (Inr (), w2\<lparr>variable_reference_to_frames_tracker := index,
                                     trackers := (trackers w2)[r := clear_tracker t1]\<rparr>)))))"

text \<open>
  \<^verbatim>\<open>_FramesTracker.get_topmost_frame_and_frame_id_to_line\<close>: \<open>None\<close> for a thread id
  with no list; \<^verbatim>\<open>frame_ids[0]\<close> raises IndexError on an empty list.
\<close>

definition FramesTracker_get_topmost_frame_and_frame_id_to_line ::
  "'v frames_tracker \<Rightarrow> string \<Rightarrow> py_error + ('v frame \<times> (int \<times> int) list) option" where
  "FramesTracker_get_topmost_frame_and_frame_id_to_line t thread_id =
    (case map_of (thread_id_to_frame_ids t) thread_id of
       None \<Rightarrow> Inr None
     | Some [] \<Rightarrow> Inl IndexError
     | Some (frame_id # rest) \<Rightarrow>
         (case map_of (frame_id_to_frame t) frame_id of
            None \<Rightarrow> Inl KeyError
          | Some frame \<Rightarrow> Inr (Some (frame, frame_id_to_lineno t))))"

definition FramesTracker_find_frame :: "'v frames_tracker \<Rightarrow> string \<Rightarrow> int \<Rightarrow> 'v frame option" where
  "FramesTracker_find_frame t thread_id frame_id = map_of (frame_id_to_frame t) frame_id"

subsection \<open>\<^verbatim>\<open>SuspendedFramesManager\<close>\<close>

text \<open>
  \<^verbatim>\<open>_get_tracker_for_variable_reference\<close>: the index first, then the first tracker of
  \<^verbatim>\<open>_thread_id_to_tracker\<close> whose \<^verbatim>\<open>get_variable\<close> does not raise KeyError.
\<close>

definition get_tracker_for_variable_reference :: "'v world \<Rightarrow> int \<Rightarrow> nat option" where
  "get_tracker_for_variable_reference w variable_reference =
    (case map_of (variable_reference_to_frames_tracker w) variable_reference of
       Some tracker \<Rightarrow> Some tracker
     | None \<Rightarrow>
         map_option snd
           (find (\<lambda>(thread_id, tracker).
                    \<not> isl (FramesTracker_get_variable (trackers w ! tracker) variable_reference))
              (thread_id_to_tracker w)))"

definition get_thread_id_for_variable_reference :: "'v world \<Rightarrow> int \<Rightarrow> string option" where
  "get_thread_id_for_variable_reference w variable_reference =
    (case get_tracker_for_variable_reference w variable_reference of
       Some frames_tracker \<Rightarrow> get_main_thread_id (trackers w ! frames_tracker)
     | None \<Rightarrow> None)"

definition get_frame_tracker :: "'v world \<Rightarrow> string \<Rightarrow> nat option" where
  "get_frame_tracker w thread_id = map_of (thread_id_to_tracker w) thread_id"

definition SuspendedFramesManager_get_variable :: "'v world \<Rightarrow> int \<Rightarrow> py_error + 'v variable" where
  "SuspendedFramesManager_get_variable w variable_reference =
    (case get_tracker_for_variable_reference w variable_reference of
       None \<Rightarrow> Inl KeyError
     | Some frames_tracker \<Rightarrow>
         FramesTracker_get_variable (trackers w ! frames_tracker) variable_reference)"

definition SuspendedFramesManager_get_topmost_frame_and_frame_id_to_line ::
  "'v world \<Rightarrow> string \<Rightarrow> py_error + ('v frame \<times> (int \<times> int) list) option" where
  "SuspendedFramesManager_get_topmost_frame_and_frame_id_to_line w thread_id =
    (case map_of (thread_id_to_tracker w) thread_id of
       None \<Rightarrow> Inr None
     | Some tracker \<Rightarrow>
         FramesTracker_get_topmost_frame_and_frame_id_to_line (trackers w ! tracker) thread_id)"

text \<open>
  The \<^verbatim>\<open>frame_id\<close> argument of \<^verbatim>\<open>add_fake_frame\<close> and \<^verbatim>\<open>find_frame\<close> is a string or an
  integer; \<^verbatim>\<open>int(frame_id)\<close> raises ValueError on a string that is no number.
\<close>

datatype frame_id_arg = IdStr string | IdInt int

fun int_of_frame_id :: "'v pyenv \<Rightarrow> frame_id_arg \<Rightarrow> py_error + int" where
  "int_of_frame_id env (IdInt i) = Inr i"
| "int_of_frame_id env (IdStr s) = (case py_int env s of None \<Rightarrow> Inl ValueError | Some i \<Rightarrow> Inr i)"

definition add_fake_frame ::
  "'v pyenv \<Rightarrow> string \<Rightarrow> frame_id_arg \<Rightarrow> 'v frame \<Rightarrow> 'v world \<Rightarrow> (py_error + unit) \<times> 'v world" where
  "add_fake_frame env thread_id frame_id frame w =
    (let fakes = dict_setdefault (thread_id_to_fake_frames w) thread_id [];
         w1 = w\<lparr>thread_id_to_fake_frames := fakes\<rparr>
     in (case int_of_frame_id env frame_id of
           Inl e \<Rightarrow> (Inl e, w1)
         | Inr i \<Rightarrow>
             (Inr (), w1\<lparr>thread_id_to_fake_frames :=
                AList.update thread_id
                  (AList.update i frame (case map_of fakes thread_id of None \<Rightarrow> [] | Some d \<Rightarrow> d))
                  fakes\<rparr>)))"

text \<open>The body of the \<^verbatim>\<open>try\<close> block of \<^verbatim>\<open>SuspendedFramesManager.find_frame\<close>.\<close>

definition find_frame_try :: "'v pyenv \<Rightarrow> 'v world \<Rightarrow> string \<Rightarrow> frame_id_arg \<Rightarrow> py_error + 'v frame option" where
  "find_frame_try env w thread_id frame_id =
    (if frame_id = IdStr ''*'' then map_sum id Some (get_frame env)
     else
       (case int_of_frame_id env frame_id of
          Inl e \<Rightarrow> Inl e
        | Inr i \<Rightarrow>
            (case Option.bind (map_of (thread_id_to_fake_frames w) thread_id) (\<lambda>fake_frames. map_of fake_frames i) of
               Some frame \<Rightarrow> Inr (Some frame)
             | None \<Rightarrow>
                 (case Option.bind (map_of (thread_id_to_tracker w) thread_id)
                         (\<lambda>frames_tracker. FramesTracker_find_frame (trackers w ! frames_tracker) thread_id i) of
                    Some frame \<Rightarrow> Inr (Some frame)
                  | None \<Rightarrow> Inr None))))"

text \<open>
  \<^verbatim>\<open>SuspendedFramesManager.find_frame\<close>: the bare \<^verbatim>\<open>except\<close> prints the traceback and
  returns \<open>None\<close>.
\<close>

definition SuspendedFramesManager_find_frame ::
  "'v pyenv \<Rightarrow> string \<Rightarrow> frame_id_arg \<Rightarrow> 'v world \<Rightarrow> 'v frame option \<times> 'v world" where
  "SuspendedFramesManager_find_frame env thread_id frame_id w =
    (case find_frame_try env w thread_id frame_id of
       Inl e \<Rightarrow> (None, w\<lparr>stderr := stderr w @ [PrintExc e]\<rparr>)
     | Inr frame \<Rightarrow> (frame, w))"

subsection \<open>Calls on the objects of one manager\<close>

text \<open>
  A method of the tracker at reference \<open>r\<close> that changes that tracker only
  (\<^verbatim>\<open>obtain_as_variable\<close>, \<^verbatim>\<open>get_children_variables\<close> of one of its nodes), run in the
  store.
\<close>

definition on_tracker ::
  "nat \<Rightarrow> ('v frames_tracker \<Rightarrow> 'a \<times> 'v frames_tracker) \<Rightarrow> 'v world \<Rightarrow> 'a \<times> 'v world" where
  "on_tracker r f w =
    (fst (f (trackers w ! r)), w\<lparr>trackers := (trackers w)[r := snd (f (trackers w ! r))]\<rparr>)"

text \<open>The frames \<^verbatim>\<open>track\<close> visits: the top frame and its callers along \<^verbatim>\<open>f_back\<close>.\<close>

fun frame_chain :: "'v frame option \<Rightarrow> 'v frame list" where
  "frame_chain None = []"
| "frame_chain (Some (Frame fid nm locals back)) = Frame fid nm locals back # frame_chain back"

text \<open>
  No frame of the chain is in the frame table of a tracker other than \<open>r\<close>: the
  condition under which two sessions never hold one frame.
\<close>

definition frames_apart :: "nat \<Rightarrow> 'v frame option \<Rightarrow> 'v world \<Rightarrow> bool" where
  "frames_apart r frame w =
    (\<forall>f \<in> set (frame_chain frame). \<forall>r' < length (trackers w).
       r' \<noteq> r \<longrightarrow> frame_ident f \<notin> fst ` set (frame_id_to_frame (trackers w ! r')))"

text \<open>
  The states of a manager and its trackers that calls of this module's methods reach
  from \<^verbatim>\<open>SuspendedFramesManager()\<close>, whatever their outcome. With \<open>apart\<close> set, only
  the runs in which \<^verbatim>\<open>track\<close> is never given a frame that another tracker holds.
\<close>

inductive reachable :: "'v pyenv \<Rightarrow> bool \<Rightarrow> 'v world \<Rightarrow> bool" for env :: "'v pyenv" and apart :: bool where
  reach_init: "reachable env apart SuspendedFramesManager_init"
| reach_new: "reachable env apart w \<Longrightarrow> reachable env apart (snd (new_FramesTracker w))"
| reach_track:
    "reachable env apart w \<Longrightarrow> r < length (trackers w)
      \<Longrightarrow> (apart \<longrightarrow> frames_apart r frame w)
      \<Longrightarrow> reachable env apart (snd (track env r thread_id frame linenos frame_custom_thread_id w))"
| reach_untrack:
    "reachable env apart w \<Longrightarrow> r < length (trackers w)
      \<Longrightarrow> reachable env apart (snd (untrack_all r w))"
| reach_obtain:
    "reachable env apart w \<Longrightarrow> r < length (trackers w)
      \<Longrightarrow> reachable env apart (snd (on_tracker r (obtain_as_variable env name v evaluate_name) w))"
| reach_children:
    "reachable env apart w \<Longrightarrow> r < length (trackers w)
      \<Longrightarrow> reachable env apart (snd (on_tracker r (get_children_variables env var fmt) w))"
| reach_fake:
    "reachable env apart w
      \<Longrightarrow> reachable env apart (snd (add_fake_frame env thread_id frame_id frame w))"
| reach_find:
    "reachable env apart w
      \<Longrightarrow> reachable env apart (snd (SuspendedFramesManager_find_frame env thread_id frame_id w))"

text \<open>
  A tracker owns a handle when the manager still refers to the tracker, through one of
  its two indices, and the tracker's table has the handle.
\<close>

definition tracker_owns :: "'v world \<Rightarrow> nat \<Rightarrow> int \<Rightarrow> bool" where
  "tracker_owns w r h =
    (r < length (trackers w)
     \<and> (map_of (variable_reference_to_frames_tracker w) h = Some r
        \<or> r \<in> snd ` set (thread_id_to_tracker w))
     \<and> h \<in> fst ` set (variable_reference_to_variable (trackers w ! r)))"

text \<open>The frame ids the manager's index maps to the tracker \<open>r\<close>.\<close>

definition index_frame_ids :: "'v world \<Rightarrow> nat \<Rightarrow> int set" where
  "index_frame_ids w r = {h. map_of (variable_reference_to_frames_tracker w) h = Some r}"

text \<open>The node built from the four arguments of \<^verbatim>\<open>_ObjectVariable\<close>.\<close>

definition mk_variable :: "string \<times> 'v \<times> bool \<times> string option \<Rightarrow> 'v variable" where
  "mk_variable spec = (case spec of (name, v, is_ret, ev) \<Rightarrow> ObjectVariable name v is_ret ev)"

text \<open>
  What \<^verbatim>\<open>_FrameVariable.get_children_variables\<close> builds its nodes from, in the order of
  the loop, before the sort.
\<close>

fun frame_child_specs ::
  "'v pyenv \<Rightarrow> (string \<times> 'v) list \<Rightarrow> py_error + (string \<times> 'v \<times> bool \<times> string option) list" where
  "frame_child_specs env [] = Inr []"
| "frame_child_specs env ((key, val) # rest) =
    (if key = RETURN_VALUES_DICT env then
       (case dict_iter_items env val of
          None \<Rightarrow> Inl AttributeError
        | Some items \<Rightarrow>
            map_sum id
              (\<lambda>others. map (\<lambda>(return_key, return_value).
                  (return_key, return_value, True,
                   Some (key @ ''['' @ py_repr env return_key @ '']''))) items @ others)
              (frame_child_specs env rest))
     else map_sum id (\<lambda>others. (key, val, False, Some key) # others) (frame_child_specs env rest))"

text \<open>A handle under which the tracker's table holds a node of that very handle.\<close>

definition registered :: "'v pyenv \<Rightarrow> 'v frames_tracker \<Rightarrow> int \<Rightarrow> bool" where
  "registered env t k =
    (case map_of (variable_reference_to_variable t) k of
       None \<Rightarrow> False
     | Some var \<Rightarrow> get_variable_reference env var = k)"

subsection \<open>Example inputs\<close>

text \<open>
  Values are integers that are their own \<^verbatim>\<open>id\<close>. The value 5 is a container whose
  resolver names its one child in decimal, or in hexadecimal when a format is given;
  the value 1000 is the dict of return values \<^verbatim>\<open>{'foo': 42}\<close>, the value 2000 the dict
  \<^verbatim>\<open>{'foo': 42, 'bar': 43}\<close>.
\<close>

definition ex_env :: "int pyenv" where
  "ex_env =
    \<lparr>py_id = (\<lambda>v. v),
     py_repr = (\<lambda>s. [CHR 0x27] @ s @ [CHR 0x27]),
     py_int = (\<lambda>s. if s = ''200'' then Some 200 else None),
     RETURN_VALUES_DICT = ''__pydevd_ret_val_dict'',
     dict_iter_items = (\<lambda>v. if v = 1000 then Some [(''foo'', 42)]
        else if v = 2000 then Some [(''foo'', 42), (''bar'', 43)] else None),
     get_type = (\<lambda>v. if v = 5
        then Some (DapResolver (\<lambda>v fmt. case fmt of
                None \<Rightarrow> [(''10'', 11, Some (Literal ''[10]''))]
              | Some d \<Rightarrow> [(''0xa'', 11, Some (Literal ''[10]''))]))
        else None),
     get_variable_details = (\<lambda>v sr. (''int'', None, ''42'')),
     sorted_attributes_key = (\<lambda>s. (0, s)),
     SafeRepr = \<lparr>convert_to_hex = False, raw_value = False\<rparr>,
     get_frame = Inr (Frame 1 ''current'' [] None)\<rparr>"

definition ex_caller :: "int frame" where
  "ex_caller = Frame 100 ''caller'' [] None"

definition ex_top :: "int frame" where
  "ex_top = Frame 200 ''top'' [(''x'', 5), (''__pydevd_ret_val_dict'', 1000)] (Some ex_caller)"

text \<open>A frame stopped after two calls have returned, with the local \<^verbatim>\<open>x\<close>.\<close>

definition ex_returns :: "int frame" where
  "ex_returns = Frame 400 ''g'' [(''x'', 5), (''__pydevd_ret_val_dict'', 2000)] None"

definition ex_other :: "int frame" where
  "ex_other = Frame 300 ''other'' [] None"

text \<open>A manager with two trackers, neither of which tracks anything yet.\<close>

definition ex_two_trackers :: "int world" where
  "ex_two_trackers = snd (new_FramesTracker (snd (new_FramesTracker SuspendedFramesManager_init)))"

text \<open>Tracker 0 tracks the thread \<^verbatim>\<open>t1\<close>, stopped in \<open>ex_top\<close> called from \<open>ex_caller\<close>.\<close>

definition ex_tracked :: "int world" where
  "ex_tracked = snd (track ex_env 0 ''t1'' (Some ex_top) [(200, 7)] None ex_two_trackers)"

text \<open>Tracker 0 tracks the same stack for the coroutine \<^verbatim>\<open>c1\<close> that runs on \<^verbatim>\<open>t1\<close>.\<close>

definition ex_coroutine :: "int world" where
  "ex_coroutine = snd (track ex_env 0 ''t1'' (Some ex_top) [] (Some ''c1'') ex_two_trackers)"

text \<open>
  Two sessions that see one object: tracker 0 (thread \<^verbatim>\<open>t1\<close>) and tracker 1 (thread
  \<^verbatim>\<open>t2\<close>) both obtain a variable for the value 7; then the first session is closed.
\<close>

definition ex_shared_value :: "int world" where
  "ex_shared_value =
    snd (on_tracker 1 (obtain_as_variable ex_env ''y'' 7 None)
      (snd (on_tracker 0 (obtain_as_variable ex_env ''x'' 7 None)
        (snd (track ex_env 1 ''t2'' (Some ex_other) [] None ex_tracked)))))"

definition ex_shared_value_closed :: "int world" where
  "ex_shared_value_closed = snd (untrack_all 0 ex_shared_value)"

text \<open>
  The thread \<^verbatim>\<open>t1\<close> is tracked twice, by tracker 0 and then by tracker 1, with the same
  stack; then tracker 0 is untracked.
\<close>

definition ex_tracked_twice :: "int world" where
  "ex_tracked_twice = snd (track ex_env 1 ''t1'' (Some ex_top) [] None ex_tracked)"

definition ex_first_untracked :: "int world" where
  "ex_first_untracked = snd (untrack_all 0 ex_tracked_twice)"

text \<open>
  In the state \<open>ex_tracked\<close> a fabricated frame is added for the thread \<^verbatim>\<open>t1\<close> under the
  id 200, which is also the id of the frame \<open>ex_top\<close> that tracker 0 holds.
\<close>

definition ex_fake :: "int world" where
  "ex_fake = snd (add_fake_frame ex_env ''t1'' (IdStr ''200'') ex_other ex_tracked)"

text \<open>
  What the proofs about reachable states carry along. The manager's two indices refer
  to trackers of the store, and a handle that the index of frames maps to a tracker is
  a key of that tracker's frame table and of its table of nodes.
\<close>

definition registry_inv :: "'v world \<Rightarrow> bool" where
  "registry_inv w =
    ((\<forall>r \<in> snd ` set (thread_id_to_tracker w). r < length (trackers w))
     \<and> (\<forall>h r. map_of (variable_reference_to_frames_tracker w) h = Some r
          \<longrightarrow> r < length (trackers w)
              \<and> h \<in> fst ` set (frame_id_to_frame (trackers w ! r))
              \<and> h \<in> fst ` set (variable_reference_to_variable (trackers w ! r))))"

text \<open>
  Every frame that a tracker not yet untracked holds is mapped to that tracker by the
  manager's index of frames.
\<close>

definition frames_indexed :: "'v world \<Rightarrow> bool" where
  "frames_indexed w =
    (\<forall>r < length (trackers w). \<not> untracked (trackers w ! r)
       \<longrightarrow> (\<forall>h \<in> fst ` set (frame_id_to_frame (trackers w ! r)).
              map_of (variable_reference_to_frames_tracker w) h = Some r))"

text \<open>
  The second tracker state differs from the first in its table of nodes only, which
  has kept its keys.
\<close>

definition registers_only :: "'v frames_tracker \<Rightarrow> 'v frames_tracker \<Rightarrow> bool" where
  "registers_only t t' =
    (t' = t\<lparr>variable_reference_to_variable := variable_reference_to_variable t'\<rparr>
     \<and> fst ` set (variable_reference_to_variable t)
         \<subseteq> fst ` set (variable_reference_to_variable t'))"

text \<open>
  As \<open>ex_shared_value\<close>, but the second session is that of the coroutine \<^verbatim>\<open>c2\<close> which
  runs on the thread \<^verbatim>\<open>t2\<close>.
\<close>

definition ex_shared_coroutine :: "int world" where
  "ex_shared_coroutine =
    snd (on_tracker 1 (obtain_as_variable ex_env ''y'' 7 None)
      (snd (on_tracker 0 (obtain_as_variable ex_env ''x'' 7 None)
        (snd (track ex_env 1 ''t2'' (Some ex_other) [] (Some ''c2'') ex_tracked)))))"

section \<open>Properties\<close>

subsection \<open>Nodes and their registration\<close>

lemma new_ObjectVariable_eq:
  "new_ObjectVariable env name v is_ret ev t =
    (ObjectVariable name v is_ret ev, register_variable env (ObjectVariable name v is_ret ev) t)"
  by (simp add: new_ObjectVariable_def Let_def)

lemma mk_variable_simp:
  "mk_variable (name, v, is_ret, ev) = ObjectVariable name v is_ret ev"
  by (simp add: mk_variable_def)

lemma mk_variable_is_object:
  "c \<in> set (map mk_variable specs) \<Longrightarrow> \<exists>name v is_ret ev. c = ObjectVariable name v is_ret ev"
  by (auto simp: mk_variable_def)

lemma new_variables_fst:
  "fst (new_variables env specs t) = map mk_variable specs"
  by (induction specs arbitrary: t) (auto simp: new_ObjectVariable_eq split_beta mk_variable_def)

lemma registered_after_register:
  "map_of (variable_reference_to_variable (register_variable env var t)) k =
     (if k = get_variable_reference env var then Some var
      else map_of (variable_reference_to_variable t) k)"
  by (simp add: register_variable_def update_conv')

lemma registered_register:
  "registered env (register_variable env var t) k =
     (k = get_variable_reference env var \<or> registered env t k)"
  by (auto simp: registered_def registered_after_register)

lemma new_variables_keeps:
  "registered env t k \<Longrightarrow> registered env (snd (new_variables env specs t)) k"
  by (induction specs arbitrary: t)
    (auto simp: new_ObjectVariable_eq registered_register split_beta)

lemma new_variables_registers:
  "var \<in> set (map mk_variable specs)
    \<Longrightarrow> registered env (snd (new_variables env specs t)) (get_variable_reference env var)"
proof (induction specs arbitrary: t)
  case Nil
  then show ?case by simp
next
  case (Cons spec specs)
  obtain name v is_ret ev where spec: "spec = (name, v, is_ret, ev)" by (cases spec)
  let ?t1 = "register_variable env (ObjectVariable name v is_ret ev) t"
  have step: "snd (new_variables env (spec # specs) t) = snd (new_variables env specs ?t1)"
    by (simp add: spec new_ObjectVariable_eq split_beta)
  from Cons.prems consider "var = ObjectVariable name v is_ret ev"
    | "var \<in> set (map mk_variable specs)"
    by (auto simp: spec mk_variable_simp)
  then show ?case
  proof cases
    case 1
    have "registered env ?t1 (get_variable_reference env var)"
      by (simp add: registered_register 1)
    then show ?thesis unfolding step by (rule new_variables_keeps)
  next
    case 2
    then show ?thesis unfolding step by (rule Cons.IH)
  qed
qed

lemma case_sum_fst:
  "fst (case s of Inl e \<Rightarrow> (Inl e, a) | Inr others \<Rightarrow> (Inr (f others), b)) = map_sum id f s"
  by (cases s) auto

lemma case_sum_snd:
  "snd (case s of Inl e \<Rightarrow> (Inl e, a) | Inr others \<Rightarrow> (Inr (f others), a)) = a"
  by (cases s) auto

lemma frame_children_fst:
  "fst (frame_children env locals t) = map_sum id (map mk_variable) (frame_child_specs env locals)"
proof (induction locals arbitrary: t)
  case Nil
  then show ?case by simp
next
  case (Cons kv rest)
  obtain key val where kv: "kv = (key, val)" by (cases kv)
  show ?case
    by (cases "frame_child_specs env rest")
      (simp_all add: kv case_sum_fst new_ObjectVariable_eq new_variables_fst split_beta Cons.IH
        mk_variable_def split: option.splits)
qed

lemma frame_children_keeps:
  "registered env t k \<Longrightarrow> registered env (snd (frame_children env locals t)) k"
proof (induction locals arbitrary: t)
  case Nil
  then show ?case by simp
next
  case (Cons kv rest)
  obtain key val where kv: "kv = (key, val)" by (cases kv)
  show ?case
    using Cons.prems
    by (simp add: kv case_sum_snd new_ObjectVariable_eq split_beta Cons.IH
        new_variables_keeps registered_register split: option.splits)
qed

lemma frame_children_registers:
  "frame_child_specs env locals = Inr specs \<Longrightarrow> var \<in> set (map mk_variable specs)
    \<Longrightarrow> registered env (snd (frame_children env locals t)) (get_variable_reference env var)"
proof (induction locals arbitrary: t specs)
  case Nil
  then show ?case by simp
next
  case (Cons kv rest)
  obtain key val where kv: "kv = (key, val)" by (cases kv)
  from Cons.prems(1) obtain others where others: "frame_child_specs env rest = Inr others"
    by (cases "frame_child_specs env rest") (auto simp: kv split: if_splits option.splits)
  show ?case
  proof (cases "key = RETURN_VALUES_DICT env")
    case True
    with Cons.prems(1) others obtain items where items: "dict_iter_items env val = Some items"
      by (auto simp: kv split: option.splits)
    let ?rs = "map (\<lambda>(return_key, return_value).
                  (return_key, return_value, True,
                   Some (key @ ''['' @ py_repr env return_key @ '']''))) items"
    let ?t1 = "snd (new_variables env ?rs t)"
    have specs: "specs = ?rs @ others"
      using Cons.prems(1) by (simp add: kv True items others)
    have step: "snd (frame_children env (kv # rest) t) = snd (frame_children env rest ?t1)"
      by (simp add: kv True items split_beta case_sum_snd)
    from Cons.prems(2) have "var \<in> set (map mk_variable ?rs) \<union> set (map mk_variable others)"
      unfolding specs by simp
    then consider "var \<in> set (map mk_variable ?rs)" | "var \<in> set (map mk_variable others)"
      by blast
    then show ?thesis
    proof cases
      case 1
      then have "registered env ?t1 (get_variable_reference env var)"
        by (rule new_variables_registers)
      then show ?thesis unfolding step by (rule frame_children_keeps)
    next
      case 2
      with others show ?thesis unfolding step by (rule Cons.IH)
    qed
  next
    case False
    let ?t1 = "register_variable env (ObjectVariable key val False (Some key)) t"
    have specs: "specs = (key, val, False, Some key) # others"
      using Cons.prems(1) by (simp add: kv False others)
    have step: "snd (frame_children env (kv # rest) t) = snd (frame_children env rest ?t1)"
      by (simp add: kv False split_beta case_sum_snd new_ObjectVariable_eq)
    from Cons.prems(2) consider "var = ObjectVariable key val False (Some key)"
      | "var \<in> set (map mk_variable others)"
      by (auto simp: specs mk_variable_simp)
    then show ?thesis
    proof cases
      case 1
      have "registered env ?t1 (get_variable_reference env var)"
        by (simp add: registered_register 1)
      then show ?thesis unfolding step by (rule frame_children_keeps)
    next
      case 2
      with others show ?thesis unfolding step by (rule Cons.IH)
    qed
  qed
qed

text \<open>The children of a node do not depend on the tracker they are registered in.\<close>

lemma get_children_variables_fst:
  "fst (get_children_variables env p fmt t) = fst (get_children_variables env p fmt t')"
proof (cases p)
  case (ObjectVariable name v is_ret ev)
  then show ?thesis
    by (simp add: Let_def split_beta new_variables_fst split: option.splits)
next
  case (FrameVariable frame)
  then show ?thesis
    by (simp add: split_beta case_sum_fst frame_children_fst)
qed

text \<open>Every child is an \<^verbatim>\<open>_ObjectVariable\<close>, registered under its handle after the call.\<close>

lemma get_children_variables_children:
  assumes "get_children_variables env p fmt t = (Inr children, t')" and "c \<in> set children"
  shows "(\<exists>name v is_ret ev. c = ObjectVariable name v is_ret ev)
         \<and> registered env t' (get_variable_reference env c)"
proof (cases p)
  case (ObjectVariable name v is_ret ev)
  show ?thesis
  proof (cases "get_type env v")
    case None
    with assms ObjectVariable show ?thesis by simp
  next
    case (Some resolver)
    let ?specs = "map (\<lambda>(key, val, suffix). (key, val, False, child_evaluate_name ev suffix))
                     (resolver_contents env resolver v fmt)"
    from assms(1) have ch: "children = map mk_variable ?specs"
      and t': "t' = snd (new_variables env ?specs t)"
      by (simp_all add: ObjectVariable Some Let_def split_beta new_variables_fst)
    from assms(2) have "registered env t' (get_variable_reference env c)"
      unfolding ch t' by (rule new_variables_registers)
    moreover from assms(2) have "\<exists>name v is_ret ev. c = ObjectVariable name v is_ret ev"
      unfolding ch by (rule mk_variable_is_object)
    ultimately show ?thesis by simp
  qed
next
  case (FrameVariable frame)
  from assms(1) obtain specs where specs: "frame_child_specs env (f_locals frame) = Inr specs"
    and ch: "children = sort_key (sorted_variables_key env) (map mk_variable specs)"
    and t': "t' = snd (frame_children env (f_locals frame) t)"
    using frame_children_fst [of env "f_locals frame" t]
    by (cases "frame_children env (f_locals frame) t"; cases "frame_child_specs env (f_locals frame)")
      (auto simp: FrameVariable split: sum.splits)
  from assms(2) have mem: "c \<in> set (map mk_variable specs)" by (simp add: ch)
  with specs have "registered env t' (get_variable_reference env c)"
    unfolding t' by (rule frame_children_registers)
  moreover from mem have "\<exists>name v is_ret ev. c = ObjectVariable name v is_ret ev"
    by (rule mk_variable_is_object)
  ultimately show ?thesis by simp
qed

subsection \<open>\<^verbatim>\<open>obtain_as_variable\<close>\<close>

lemma obtain_registered:
  "map_of (variable_reference_to_variable t) (py_id env v) = Some n
    \<Longrightarrow> obtain_as_variable env name v ev t = (n, t)"
  by (simp add: obtain_as_variable_def Let_def)

lemma obtain_fresh:
  "map_of (variable_reference_to_variable t) (py_id env v) = None
    \<Longrightarrow> obtain_as_variable env name v ev t =
        (ObjectVariable name v False (Some (case ev of None \<Rightarrow> name | Some e \<Rightarrow> e)),
         register_variable env
           (ObjectVariable name v False (Some (case ev of None \<Rightarrow> name | Some e \<Rightarrow> e))) t)"
  by (simp add: obtain_as_variable_def new_ObjectVariable_eq Let_def)

lemma obtain_twice:
  assumes "obtain_as_variable env name v ev t = (n1, t1)"
  shows "obtain_as_variable env name' v ev' t1 = (n1, t1)"
proof (cases "map_of (variable_reference_to_variable t) (py_id env v)")
  case None
  with assms obtain_fresh [OF None, of name ev] have
    n1: "n1 = ObjectVariable name v False (Some (case ev of None \<Rightarrow> name | Some e \<Rightarrow> e))"
    and t1: "t1 = register_variable env n1 t" by auto
  have "map_of (variable_reference_to_variable t1) (py_id env v) = Some n1"
    unfolding t1 by (simp add: registered_after_register n1)
  then show ?thesis by (rule obtain_registered)
next
  case (Some n)
  with assms obtain_registered [OF Some, of name ev] have "n1 = n" "t1 = t" by auto
  with Some show ?thesis by (simp add: obtain_registered)
qed

lemma obtain_of_registered:
  assumes "registered env t (py_id env v)"
  shows "\<exists>n. obtain_as_variable env name v ev t = (n, t) \<and> get_variable_reference env n = py_id env v"
proof -
  from assms obtain n where n: "map_of (variable_reference_to_variable t) (py_id env v) = Some n"
    and h: "get_variable_reference env n = py_id env v"
    by (auto simp: registered_def split: option.splits)
  from n have "obtain_as_variable env name v ev t = (n, t)" by (rule obtain_registered)
  with h show ?thesis by blast
qed

text \<open>
  C1. A node's handle is \<^verbatim>\<open>id\<close> of the value it wraps; asking \<^verbatim>\<open>obtain_as_variable\<close> again
  for a value returns the very node of the first request and registers nothing;
  expanding a container twice yields children with the same handles, each of them the
  \<^verbatim>\<open>id\<close> of the child's value, and \<^verbatim>\<open>obtain_as_variable\<close> for a child's value then returns a
  registered node with that same handle.
\<close>

theorem handle_is_value_identity:
  "get_variable_reference env (ObjectVariable name v is_ret ev) = py_id env v
   \<and> get_variable_reference env (FrameVariable frame) = frame_ident frame
   \<and> (obtain_as_variable env name v evaluate_name t = (n1, t1)
        \<longrightarrow> obtain_as_variable env name' v evaluate_name' t1 = (n1, t1))
   \<and> (map_of (variable_reference_to_variable t) (py_id env v) = Some n
        \<longrightarrow> obtain_as_variable env name v evaluate_name t = (n, t))
   \<and> (get_children_variables env p fmt t = (Inr children, t2)
        \<and> get_children_variables env p fmt t2 = (Inr children', t3)
        \<longrightarrow> map (get_variable_reference env) children' = map (get_variable_reference env) children
          \<and> (\<forall>c \<in> set children.
                get_variable_reference env c = py_id env (var_value c)
                \<and> (\<exists>c'. obtain_as_variable env name' (var_value c) evaluate_name' t2 = (c', t2)
                      \<and> get_variable_reference env c' = get_variable_reference env c)))"
proof (intro conjI impI)
  show "get_variable_reference env (ObjectVariable name v is_ret ev) = py_id env v" by simp
  show "get_variable_reference env (FrameVariable frame) = frame_ident frame" by simp
next
  assume "obtain_as_variable env name v evaluate_name t = (n1, t1)"
  then show "obtain_as_variable env name' v evaluate_name' t1 = (n1, t1)" by (rule obtain_twice)
next
  assume "map_of (variable_reference_to_variable t) (py_id env v) = Some n"
  then show "obtain_as_variable env name v evaluate_name t = (n, t)" by (rule obtain_registered)
next
  assume a: "get_children_variables env p fmt t = (Inr children, t2)
    \<and> get_children_variables env p fmt t2 = (Inr children', t3)"
  from a get_children_variables_fst [of env p fmt t t2] have "children' = children" by simp
  then show "map (get_variable_reference env) children' = map (get_variable_reference env) children"
    by simp
  show "\<forall>c \<in> set children.
          get_variable_reference env c = py_id env (var_value c)
          \<and> (\<exists>c'. obtain_as_variable env name' (var_value c) evaluate_name' t2 = (c', t2)
                \<and> get_variable_reference env c' = get_variable_reference env c)"
  proof
    fix c assume c: "c \<in> set children"
    from a have g: "get_children_variables env p fmt t = (Inr children, t2)" by simp
    from get_children_variables_children [OF g c]
    obtain cn cv cr ce where obj: "c = ObjectVariable cn cv cr ce"
      and reg: "registered env t2 (get_variable_reference env c)" by blast
    from reg have "registered env t2 (py_id env cv)" by (simp add: obj)
    from obtain_of_registered [OF this, of name' evaluate_name']
    show "get_variable_reference env c = py_id env (var_value c)
          \<and> (\<exists>c'. obtain_as_variable env name' (var_value c) evaluate_name' t2 = (c', t2)
                \<and> get_variable_reference env c' = get_variable_reference env c)"
      by (simp add: obj)
  qed
qed

theorem handle_is_value_identity_witness:
  "obtain_as_variable ex_env ''x'' 5 None FramesTracker_init =
     (ObjectVariable ''x'' 5 False (Some ''x''),
      register_variable ex_env (ObjectVariable ''x'' 5 False (Some ''x'')) FramesTracker_init)
   \<and> obtain_as_variable ex_env ''alias'' 5 (Some ''a.b'')
       (register_variable ex_env (ObjectVariable ''x'' 5 False (Some ''x'')) FramesTracker_init) =
     (ObjectVariable ''x'' 5 False (Some ''x''),
      register_variable ex_env (ObjectVariable ''x'' 5 False (Some ''x'')) FramesTracker_init)
   \<and> get_variable_reference ex_env (ObjectVariable ''x'' 5 False (Some ''x'')) = 5"
proof -
  have first: "obtain_as_variable ex_env ''x'' 5 None FramesTracker_init =
     (ObjectVariable ''x'' 5 False (Some ''x''),
      register_variable ex_env (ObjectVariable ''x'' 5 False (Some ''x'')) FramesTracker_init)"
    by (simp add: obtain_as_variable_def new_ObjectVariable_eq FramesTracker_init_def ex_env_def
        Let_def)
  from handle_is_value_identity [of ex_env "''x''" 5 False "Some ''x''" undefined None
      FramesTracker_init "ObjectVariable ''x'' 5 False (Some ''x'')"
      "register_variable ex_env (ObjectVariable ''x'' 5 False (Some ''x'')) FramesTracker_init"
      "''alias''" "Some ''a.b''"] first
  show ?thesis by (simp add: ex_env_def)
qed

text \<open>
  C9. When a node is already registered under \<^verbatim>\<open>id(value)\<close>, \<^verbatim>\<open>obtain_as_variable\<close> returns
  that node and leaves the tracker as it is, whatever \<^verbatim>\<open>name\<close> and \<^verbatim>\<open>evaluate_name\<close> it is
  given; so there are calls whose result has another name than the one passed.
\<close>

theorem obtain_as_variable_ignores_name:
  "(map_of (variable_reference_to_variable t) (py_id env v) = Some n
      \<longrightarrow> obtain_as_variable env name v evaluate_name t = (n, t))
   \<and> (\<exists>(env' :: int pyenv) t' name' v' evaluate_name'.
        get_name (fst (obtain_as_variable env' name' v' evaluate_name' t')) \<noteq> name')"
proof
  show "map_of (variable_reference_to_variable t) (py_id env v) = Some n
      \<longrightarrow> obtain_as_variable env name v evaluate_name t = (n, t)"
    by (simp add: obtain_registered)
  have "get_name (fst (obtain_as_variable ex_env ''b'' 7 (Some ''b'')
          (snd (obtain_as_variable ex_env ''a'' 7 None FramesTracker_init)))) \<noteq> ''b''"
    by (simp add: obtain_as_variable_def new_ObjectVariable_eq register_variable_def
        FramesTracker_init_def ex_env_def Let_def)
  then show "\<exists>(env' :: int pyenv) t' name' v' evaluate_name'.
        get_name (fst (obtain_as_variable env' name' v' evaluate_name' t')) \<noteq> name'"
    by blast
qed

theorem obtain_as_variable_ignores_name_witness:
  "map_of (variable_reference_to_variable
      (register_variable ex_env (ObjectVariable ''a'' 7 False (Some ''a'')) FramesTracker_init))
     (py_id ex_env 7) = Some (ObjectVariable ''a'' 7 False (Some ''a''))
   \<and> obtain_as_variable ex_env ''b'' 7 (Some ''b'')
       (register_variable ex_env (ObjectVariable ''a'' 7 False (Some ''a'')) FramesTracker_init) =
     (ObjectVariable ''a'' 7 False (Some ''a''),
      register_variable ex_env (ObjectVariable ''a'' 7 False (Some ''a'')) FramesTracker_init)
   \<and> get_name (ObjectVariable ''a'' 7 False (Some ''a'') :: int variable) \<noteq> ''b''"
proof -
  have reg: "map_of (variable_reference_to_variable
      (register_variable ex_env (ObjectVariable ''a'' 7 False (Some ''a'')) FramesTracker_init))
     (py_id ex_env 7) = Some (ObjectVariable ''a'' 7 False (Some ''a''))"
    by (simp add: register_variable_def FramesTracker_init_def ex_env_def)
  from obtain_as_variable_ignores_name [of
      "register_variable ex_env (ObjectVariable ''a'' 7 False (Some ''a'')) FramesTracker_init"
      ex_env 7 "ObjectVariable ''a'' 7 False (Some ''a'')" "''b''" "Some ''b''"] reg
  show ?thesis by simp
qed

subsection \<open>Children of a node\<close>

lemma new_variables_snd:
  "snd (new_variables env specs t) =
    foldl (\<lambda>t var. register_variable env var t) t (map mk_variable specs)"
  by (induction env specs t rule: new_variables.induct)
    (simp_all add: new_ObjectVariable_eq split_beta mk_variable_def)

lemma get_children_variables_object_state:
  "get_type env v = Some resolver \<Longrightarrow>
    get_children_variables env (ObjectVariable name v is_ret ev) fmt t =
      (Inr (map (\<lambda>(key, val, suffix). ObjectVariable key val False (child_evaluate_name ev suffix))
              (resolver_contents env resolver v fmt)),
       foldl (\<lambda>t var. register_variable env var t) t
         (map (\<lambda>(key, val, suffix). ObjectVariable key val False (child_evaluate_name ev suffix))
              (resolver_contents env resolver v fmt)))"
proof -
  assume r: "get_type env v = Some resolver"
  let ?specs = "map (\<lambda>(key, val, suffix). (key, val, False, child_evaluate_name ev suffix))
                 (resolver_contents env resolver v fmt)"
  have m: "map mk_variable ?specs =
      map (\<lambda>(key, val, suffix). ObjectVariable key val False (child_evaluate_name ev suffix))
        (resolver_contents env resolver v fmt)"
    by (simp add: mk_variable_def split_beta)
  have "get_children_variables env (ObjectVariable name v is_ret ev) fmt t =
      (Inr (fst (new_variables env ?specs t)), snd (new_variables env ?specs t))"
    by (simp add: r Let_def split_beta)
  then show ?thesis
    by (simp only: new_variables_fst new_variables_snd m)
qed

text \<open>
  C4, as the code has it. For a value with no resolver the result is the empty list and
  the tracker is untouched. For a container every call, in whatever state the tracker
  is, lists the resolver's contents for the format of that call, builds one new node
  per entry and registers the nodes one after the other, each under its handle, over
  whatever the tracker's table holds there. A second call does the same for its own
  format, over the table the first call left. For every node, frame nodes included,
  what a call returns is what it would return had no call been made before.
\<close>

theorem get_children_variables_computed_on_every_call:
  "(get_type env v = None
      \<longrightarrow> get_children_variables env (ObjectVariable name v is_ret ev) fmt t = (Inr [], t))
   \<and> (get_type env v = Some resolver
      \<longrightarrow> (let children = (\<lambda>fmt. map (\<lambda>(key, val, suffix).
                    ObjectVariable key val False (child_evaluate_name ev suffix))
                  (resolver_contents env resolver v fmt));
               register = foldl (\<lambda>t var. register_variable env var t)
           in get_children_variables env (ObjectVariable name v is_ret ev) fmt t =
                (Inr (children fmt), register t (children fmt))
              \<and> get_children_variables env (ObjectVariable name v is_ret ev) fmt'
                  (snd (get_children_variables env (ObjectVariable name v is_ret ev) fmt t)) =
                (Inr (children fmt'), register (register t (children fmt)) (children fmt'))))
   \<and> fst (get_children_variables env p fmt' (snd (get_children_variables env p fmt t))) =
       fst (get_children_variables env p fmt' t)"
proof (intro conjI impI)
  assume "get_type env v = None"
  then show "get_children_variables env (ObjectVariable name v is_ret ev) fmt t = (Inr [], t)"
    by simp
next
  assume r: "get_type env v = Some resolver"
  show "let children = (\<lambda>fmt. map (\<lambda>(key, val, suffix).
                    ObjectVariable key val False (child_evaluate_name ev suffix))
                  (resolver_contents env resolver v fmt));
               register = foldl (\<lambda>t var. register_variable env var t)
           in get_children_variables env (ObjectVariable name v is_ret ev) fmt t =
                (Inr (children fmt), register t (children fmt))
              \<and> get_children_variables env (ObjectVariable name v is_ret ev) fmt'
                  (snd (get_children_variables env (ObjectVariable name v is_ret ev) fmt t)) =
                (Inr (children fmt'), register (register t (children fmt)) (children fmt'))"
    unfolding Let_def
    by (simp only: get_children_variables_object_state [OF r] snd_conv simp_thms)
next
  show "fst (get_children_variables env p fmt' (snd (get_children_variables env p fmt t))) =
       fst (get_children_variables env p fmt' t)"
    by (rule get_children_variables_fst)
qed

theorem get_children_variables_computed_on_every_call_witness:
  "get_children_variables ex_env (ObjectVariable ''x'' 5 False (Some ''x'')) None
       FramesTracker_init =
     (Inr [ObjectVariable ''10'' 11 False (Some ''x[10]'')],
      FramesTracker_init\<lparr>variable_reference_to_variable :=
        [(11, ObjectVariable ''10'' 11 False (Some ''x[10]''))]\<rparr>)
   \<and> get_children_variables ex_env (ObjectVariable ''x'' 5 False (Some ''x''))
       (Some [(''hex'', True)])
       (snd (get_children_variables ex_env (ObjectVariable ''x'' 5 False (Some ''x'')) None
          FramesTracker_init)) =
     (Inr [ObjectVariable ''0xa'' 11 False (Some ''x[10]'')],
      FramesTracker_init\<lparr>variable_reference_to_variable :=
        [(11, ObjectVariable ''0xa'' 11 False (Some ''x[10]''))]\<rparr>)
   \<and> get_children_variables ex_env (ObjectVariable ''0xa'' 11 False (Some ''x[10]'')) None
        FramesTracker_init = (Inr [], FramesTracker_init)"
proof -
  obtain resolver where r: "get_type ex_env 5 = Some resolver"
    and c: "resolver_contents ex_env resolver 5 None = [(''10'', 11, Some (Literal ''[10]''))]"
    and c': "resolver_contents ex_env resolver 5 (Some [(''hex'', True)]) =
      [(''0xa'', 11, Some (Literal ''[10]''))]"
    by (simp add: ex_env_def resolver_contents_def)
  have n: "get_type ex_env 11 = None" by (simp add: ex_env_def)
  have i: "py_id ex_env 11 = 11" by (simp add: ex_env_def)
  note container = get_children_variables_computed_on_every_call
    [of ex_env 5 "''x''" False "Some ''x''" None FramesTracker_init resolver
      "Some [(''hex'', True)]", THEN conjunct2, THEN conjunct1, THEN mp, OF r,
      unfolded Let_def c c']
  note leaf = get_children_variables_computed_on_every_call
    [of ex_env 11 "''0xa''" False "Some ''x[10]''" None FramesTracker_init,
      THEN conjunct1, THEN mp, OF n]
  note first_call = container [THEN conjunct1]
  note second_call = container [THEN conjunct2, unfolded first_call snd_conv]
  from first_call second_call leaf show ?thesis
    by (simp add: register_variable_def FramesTracker_init_def i
        del: get_children_variables.simps)
qed

text \<open>
  Against C4 as stated (a second call returns the sequence cached by the first): a
  second call with another format returns another sequence; and a second call with the
  same format registers its new nodes again, here over the node that the expansion of
  a frame had put under the handle 11 in between.
\<close>

theorem get_children_variables_cached_counterexample:
  "fst (get_children_variables ex_env (ObjectVariable ''x'' 5 False (Some ''x'')) None
          FramesTracker_init) = Inr [ObjectVariable ''10'' 11 False (Some ''x[10]'')]
   \<and> fst (get_children_variables ex_env (ObjectVariable ''x'' 5 False (Some ''x''))
          (Some [(''hex'', True)])
          (snd (get_children_variables ex_env (ObjectVariable ''x'' 5 False (Some ''x'')) None
             FramesTracker_init))) = Inr [ObjectVariable ''0xa'' 11 False (Some ''x[10]'')]
   \<and> map_of (variable_reference_to_variable
        (snd (get_children_variables ex_env (FrameVariable (Frame 300 ''f'' [(''y'', 11)] None)) None
          (snd (get_children_variables ex_env (ObjectVariable ''x'' 5 False (Some ''x'')) None
             FramesTracker_init))))) 11 = Some (ObjectVariable ''y'' 11 False (Some ''y''))
   \<and> map_of (variable_reference_to_variable
        (snd (get_children_variables ex_env (ObjectVariable ''x'' 5 False (Some ''x'')) None
          (snd (get_children_variables ex_env (FrameVariable (Frame 300 ''f'' [(''y'', 11)] None)) None
            (snd (get_children_variables ex_env (ObjectVariable ''x'' 5 False (Some ''x'')) None
               FramesTracker_init))))))) 11 = Some (ObjectVariable ''10'' 11 False (Some ''x[10]''))"
  by (simp add: ex_env_def resolver_contents_def new_ObjectVariable_eq register_variable_def
      FramesTracker_init_def)

subsection \<open>The children of a frame\<close>

lemma frame_child_specs_member:
  "(RETURN_VALUES_DICT env, val) \<in> set locals \<Longrightarrow> dict_iter_items env val = Some items
    \<Longrightarrow> (return_key, return_value) \<in> set items
    \<Longrightarrow> frame_child_specs env locals = Inr specs
    \<Longrightarrow> (return_key, return_value, True,
          Some (RETURN_VALUES_DICT env @ ''['' @ py_repr env return_key @ '']'')) \<in> set specs"
proof (induction locals arbitrary: specs)
  case Nil
  then show ?case by simp
next
  case (Cons kv rest)
  obtain key val' where kv: "kv = (key, val')" by (cases kv)
  from Cons.prems(4) obtain others where others: "frame_child_specs env rest = Inr others"
    by (cases "frame_child_specs env rest") (auto simp: kv split: if_splits option.splits)
  show ?case
  proof (cases "kv = (RETURN_VALUES_DICT env, val)")
    case True
    with Cons.prems others show ?thesis by (auto simp: kv)
  next
    case False
    with Cons.prems(1) have "(RETURN_VALUES_DICT env, val) \<in> set rest" by simp
    from Cons.IH [OF this Cons.prems(2,3) others] Cons.prems(4) others
    show ?thesis by (auto simp: kv split: if_splits option.splits)
  qed
qed

lemma frame_child_specs_no_return:
  "RETURN_VALUES_DICT env \<notin> fst ` set locals \<Longrightarrow> frame_child_specs env locals = Inr specs
    \<Longrightarrow> filter (\<lambda>spec. fst (snd (snd spec))) specs = []"
proof (induction locals arbitrary: specs)
  case Nil
  then show ?case by simp
next
  case (Cons kv rest)
  obtain key val' where kv: "kv = (key, val')" by (cases kv)
  from Cons.prems(2) obtain others where others: "frame_child_specs env rest = Inr others"
    by (cases "frame_child_specs env rest") (auto simp: kv split: if_splits option.splits)
  from Cons.prems(1) have k: "key \<noteq> RETURN_VALUES_DICT env"
    and "RETURN_VALUES_DICT env \<notin> fst ` set rest"
    by (auto simp: kv)
  from Cons.IH [OF this(2) others]
  have "filter (\<lambda>spec. fst (snd (snd spec))) others = []" .
  moreover from Cons.prems(2) k have "specs = (key, val', False, Some key) # others"
    by (simp add: kv others)
  ultimately show ?case by simp
qed

lemma frame_child_specs_returns:
  "distinct (map fst locals) \<Longrightarrow> (RETURN_VALUES_DICT env, val) \<in> set locals
    \<Longrightarrow> dict_iter_items env val = Some items
    \<Longrightarrow> frame_child_specs env locals = Inr specs
    \<Longrightarrow> filter (\<lambda>spec. fst (snd (snd spec))) specs =
          map (\<lambda>(return_key, return_value).
                 (return_key, return_value, True,
                  Some (RETURN_VALUES_DICT env @ ''['' @ py_repr env return_key @ '']''))) items"
proof (induction locals arbitrary: specs)
  case Nil
  then show ?case by simp
next
  case (Cons kv rest)
  obtain key val' where kv: "kv = (key, val')" by (cases kv)
  from Cons.prems(4) obtain others where others: "frame_child_specs env rest = Inr others"
    by (cases "frame_child_specs env rest") (auto simp: kv split: if_splits option.splits)
  from Cons.prems(1) have d: "distinct (map fst rest)" and k: "key \<notin> fst ` set rest"
    by (auto simp: kv)
  show ?case
  proof (cases "key = RETURN_VALUES_DICT env")
    case True
    with k Cons.prems(2) have v: "val' = val" by (auto simp: kv rev_image_eqI)
    from k True have "RETURN_VALUES_DICT env \<notin> fst ` set rest" by simp
    from frame_child_specs_no_return [OF this others]
    have "filter (\<lambda>spec. fst (snd (snd spec))) others = []" .
    moreover have "specs = map (\<lambda>(return_key, return_value).
                 (return_key, return_value, True,
                  Some (key @ ''['' @ py_repr env return_key @ '']''))) items @ others"
      using Cons.prems(3,4) by (simp add: kv True v others)
    ultimately show ?thesis by (simp add: True filter_map comp_def split_beta)
  next
    case False
    with Cons.prems(2) have "(RETURN_VALUES_DICT env, val) \<in> set rest" by (auto simp: kv)
    from Cons.IH [OF d this Cons.prems(3) others] Cons.prems(4) others False
    show ?thesis by (auto simp: kv)
  qed
qed

lemma get_children_variables_frame:
  assumes "get_children_variables env (FrameVariable frame) fmt t = (Inr children, t')"
  shows "\<exists>specs. frame_child_specs env (f_locals frame) = Inr specs
          \<and> children = sort_key (sorted_variables_key env) (map mk_variable specs)"
  using assms frame_children_fst [of env "f_locals frame" t]
  by (cases "frame_children env (f_locals frame) t"; cases "frame_child_specs env (f_locals frame)")
    (auto split: sum.splits)

lemma get_var_data_return_value:
  "\<exists>vd. get_var_data env (ObjectVariable name v True ev) fmt = Inr vd
        \<and> vd_name vd = ''(return) '' @ name
        \<and> vd_evaluateName vd = ev
        \<and> (\<exists>attributes. vd_presentationHint vd = Some attributes \<and> ''readOnly'' \<in> set attributes)"
  by (simp add: Let_def split_beta)

lemma frame_child_specs_succeeds:
  "\<forall>(key, val) \<in> set locals. key = RETURN_VALUES_DICT env \<longrightarrow> dict_iter_items env val \<noteq> None
    \<Longrightarrow> \<exists>specs. frame_child_specs env locals = Inr specs"
proof (induction locals)
  case Nil
  then show ?case by simp
next
  case (Cons kv rest)
  obtain key val where kv: "kv = (key, val)" by (cases kv)
  from Cons.prems have "\<forall>(key, val) \<in> set rest.
      key = RETURN_VALUES_DICT env \<longrightarrow> dict_iter_items env val \<noteq> None"
    by simp
  from Cons.IH [OF this] obtain others where "frame_child_specs env rest = Inr others" ..
  with Cons.prems show ?case by (auto simp: kv)
qed

lemma get_children_variables_frame_returns:
  assumes "distinct (map fst (f_locals frame))"
    and "(RETURN_VALUES_DICT env, val) \<in> set (f_locals frame)"
    and "dict_iter_items env val = Some items"
  shows "\<exists>specs. frame_child_specs env (f_locals frame) = Inr specs
    \<and> get_children_variables env (FrameVariable frame) fmt t =
        (Inr (sort_key (sorted_variables_key env) (map mk_variable specs)),
         snd (frame_children env (f_locals frame) t))"
proof -
  have "\<forall>(key, val') \<in> set (f_locals frame).
      key = RETURN_VALUES_DICT env \<longrightarrow> dict_iter_items env val' \<noteq> None"
    using assms by (auto dest: eq_key_imp_eq_value)
  from frame_child_specs_succeeds [OF this] obtain specs
    where specs: "frame_child_specs env (f_locals frame) = Inr specs" ..
  from frame_children_fst [of env "f_locals frame" t] specs
  have "fst (frame_children env (f_locals frame) t) = Inr (map mk_variable specs)"
    by simp
  then have "get_children_variables env (FrameVariable frame) fmt t =
        (Inr (sort_key (sorted_variables_key env) (map mk_variable specs)),
         snd (frame_children env (f_locals frame) t))"
    by (cases "frame_children env (f_locals frame) t") simp
  with specs show ?thesis by blast
qed

text \<open>
  C7. The locals of a frame are a dict, so no name is bound twice. When they bind
  \<^verbatim>\<open>RETURN_VALUES_DICT\<close> to a dict, \<^verbatim>\<open>get_children_variables\<close> of the frame's node returns
  its children, and those of them that are return values are exactly one node per
  entry \<open>(name, value)\<close> of that dict, sorted like all the children: the node of
  \<open>value\<close> with the evaluate name \<^verbatim>\<open>RETURN_VALUES_DICT[repr(name)]\<close>, which \<^verbatim>\<open>get_var_data\<close>
  shows as \<^verbatim>\<open>(return) name\<close> with the attribute \<^verbatim>\<open>readOnly\<close>.
\<close>

theorem return_values_unpacked:
  assumes "distinct (map fst (f_locals frame))"
    and "(RETURN_VALUES_DICT env, val) \<in> set (f_locals frame)"
    and "dict_iter_items env val = Some items"
  shows "\<exists>children t'.
           get_children_variables env (FrameVariable frame) fmt t = (Inr children, t')
         \<and> filter var_is_return_value children =
             sort_key (sorted_variables_key env)
               (map (\<lambda>(return_key, return_value).
                       ObjectVariable return_key return_value True
                         (Some (RETURN_VALUES_DICT env @ ''['' @ py_repr env return_key @ '']'')))
                  items)
         \<and> (\<forall>(return_key, return_value) \<in> set items.
              ObjectVariable return_key return_value True
                (Some (RETURN_VALUES_DICT env @ ''['' @ py_repr env return_key @ '']''))
                \<in> set children
              \<and> (\<exists>vd. get_var_data env
                        (ObjectVariable return_key return_value True
                          (Some (RETURN_VALUES_DICT env @ ''['' @ py_repr env return_key @ '']'')))
                        fmt' = Inr vd
                    \<and> vd_name vd = ''(return) '' @ return_key
                    \<and> vd_evaluateName vd =
                        Some (RETURN_VALUES_DICT env @ ''['' @ py_repr env return_key @ '']'')
                    \<and> (\<exists>attributes. vd_presentationHint vd = Some attributes
                          \<and> ''readOnly'' \<in> set attributes)))"
proof -
  from get_children_variables_frame_returns [OF assms, of fmt t] obtain specs
    where specs: "frame_child_specs env (f_locals frame) = Inr specs"
      and g: "get_children_variables env (FrameVariable frame) fmt t =
        (Inr (sort_key (sorted_variables_key env) (map mk_variable specs)),
         snd (frame_children env (f_locals frame) t))"
    by blast
  let ?children = "sort_key (sorted_variables_key env) (map mk_variable specs)"
  have "filter var_is_return_value (map mk_variable specs) =
      map mk_variable (filter (\<lambda>spec. fst (snd (snd spec))) specs)"
    by (simp add: filter_map comp_def mk_variable_def split_beta)
  also have "\<dots> = map (\<lambda>(return_key, return_value).
                       ObjectVariable return_key return_value True
                         (Some (RETURN_VALUES_DICT env @ ''['' @ py_repr env return_key @ '']'')))
                  items"
    by (simp add: frame_child_specs_returns [OF assms specs] mk_variable_def split_beta)
  finally have f: "filter var_is_return_value ?children =
             sort_key (sorted_variables_key env)
               (map (\<lambda>(return_key, return_value).
                       ObjectVariable return_key return_value True
                         (Some (RETURN_VALUES_DICT env @ ''['' @ py_repr env return_key @ '']'')))
                  items)"
    by (simp add: filter_sort)
  have m: "ObjectVariable return_key return_value True
          (Some (RETURN_VALUES_DICT env @ ''['' @ py_repr env return_key @ '']'')) \<in> set ?children"
    if "(return_key, return_value) \<in> set items" for return_key return_value
  proof -
    from frame_child_specs_member [OF assms(2,3) that specs]
    have "mk_variable (return_key, return_value, True,
            Some (RETURN_VALUES_DICT env @ ''['' @ py_repr env return_key @ '']''))
          \<in> set (map mk_variable specs)"
      by (simp only: set_map image_eqI)
    then show ?thesis by (simp add: mk_variable_simp)
  qed
  have "\<forall>(return_key, return_value) \<in> set items.
              ObjectVariable return_key return_value True
                (Some (RETURN_VALUES_DICT env @ ''['' @ py_repr env return_key @ '']''))
                \<in> set ?children
              \<and> (\<exists>vd. get_var_data env
                        (ObjectVariable return_key return_value True
                          (Some (RETURN_VALUES_DICT env @ ''['' @ py_repr env return_key @ '']'')))
                        fmt' = Inr vd
                    \<and> vd_name vd = ''(return) '' @ return_key
                    \<and> vd_evaluateName vd =
                        Some (RETURN_VALUES_DICT env @ ''['' @ py_repr env return_key @ '']'')
                    \<and> (\<exists>attributes. vd_presentationHint vd = Some attributes
                          \<and> ''readOnly'' \<in> set attributes))"
    using m get_var_data_return_value by fast
  with g f show ?thesis by blast
qed

theorem return_values_unpacked_witness:
  "\<exists>children t'.
      get_children_variables ex_env (FrameVariable ex_returns) None FramesTracker_init =
        (Inr children, t')
    \<and> filter var_is_return_value children =
        [ObjectVariable ''bar'' 43 True (Some ''__pydevd_ret_val_dict['bar']''),
         ObjectVariable ''foo'' 42 True (Some ''__pydevd_ret_val_dict['foo']'')]
    \<and> (\<exists>vd. get_var_data ex_env
              (ObjectVariable ''foo'' 42 True (Some ''__pydevd_ret_val_dict['foo']'')) None = Inr vd
          \<and> vd_name vd = ''(return) foo''
          \<and> vd_evaluateName vd = Some ''__pydevd_ret_val_dict['foo']''
          \<and> (\<exists>attributes. vd_presentationHint vd = Some attributes
                \<and> ''readOnly'' \<in> set attributes))
    \<and> (\<exists>vd. get_var_data ex_env
              (ObjectVariable ''bar'' 43 True (Some ''__pydevd_ret_val_dict['bar']'')) None = Inr vd
          \<and> vd_name vd = ''(return) bar''
          \<and> vd_evaluateName vd = Some ''__pydevd_ret_val_dict['bar']''
          \<and> (\<exists>attributes. vd_presentationHint vd = Some attributes
                \<and> ''readOnly'' \<in> set attributes))"
proof -
  have d: "distinct (map fst (f_locals ex_returns))"
    by (simp add: ex_returns_def)
  have l: "(RETURN_VALUES_DICT ex_env, 2000) \<in> set (f_locals ex_returns)"
    by (simp add: ex_env_def ex_returns_def)
  have i: "dict_iter_items ex_env 2000 = Some [(''foo'', 42), (''bar'', 43)]"
    by (simp add: ex_env_def)
  have s: "\<And>var. sorted_variables_key ex_env var = (0, get_name var)"
    by (simp add: sorted_variables_key_def ex_env_def)
  have r: "RETURN_VALUES_DICT ex_env = ''__pydevd_ret_val_dict''"
    and p: "\<And>name. py_repr ex_env name = [CHR 0x27] @ name @ [CHR 0x27]"
    by (simp_all add: ex_env_def)
  from return_values_unpacked [OF d l i, of None FramesTracker_init None]
  show ?thesis
    by (simp add: r p s del: get_children_variables.simps get_var_data.simps) blast
qed

subsection \<open>The example states, evaluated\<close>

lemma ex_two_trackers_eq:
  "ex_two_trackers =
    \<lparr>thread_id_to_fake_frames = [], thread_id_to_tracker = [],
     variable_reference_to_frames_tracker = [],
     trackers = [FramesTracker_init, FramesTracker_init], stderr = []\<rparr>"
  by (simp add: ex_two_trackers_def new_FramesTracker_def SuspendedFramesManager_init_def)

lemma ex_tracked_eq:
  "ex_tracked =
    \<lparr>thread_id_to_fake_frames = [], thread_id_to_tracker = [(''t1'', 0)],
     variable_reference_to_frames_tracker = [(200, 0), (100, 0)],
     trackers =
       [\<lparr>suspended_frames_manager = True,
         frame_id_to_frame = [(200, ex_top), (100, ex_caller)],
         frame_id_to_main_thread_id = [(200, ''t1''), (100, ''t1'')],
         thread_id_to_frame_ids = [(''t1'', [200, 100])],
         frame_id_to_lineno = [(200, 7)], main_thread_id = Some ''t1'',
         untracked = False,
         variable_reference_to_variable =
           [(200, FrameVariable ex_top), (100, FrameVariable ex_caller)]\<rparr>,
        FramesTracker_init],
     stderr = []\<rparr>"
  by (simp add: ex_tracked_def ex_two_trackers_eq track_def track_frame_def Let_def
      coroutine_or_main_thread_id_def dict_setdefault_def register_variable_def
      FramesTracker_init_def ex_top_def ex_caller_def ex_env_def)

lemma ex_fake_eq:
  "ex_fake = ex_tracked\<lparr>thread_id_to_fake_frames := [(''t1'', [(200, ex_other)])]\<rparr>"
  by (simp add: ex_fake_def ex_tracked_eq add_fake_frame_def Let_def dict_setdefault_def
      ex_env_def)

subsection \<open>\<^verbatim>\<open>find_frame\<close> of the manager\<close>

text \<open>
  C8. \<^verbatim>\<open>SuspendedFramesManager.find_frame\<close> answers the id \<^verbatim>\<open>"*"\<close> with the current frame;
  any other id that is a number with the fabricated frame of the thread under that
  number when there is one, whatever the thread's tracker holds; otherwise with what
  the thread's tracker finds; and with \<open>None\<close> when the thread has no tracker. An
  exception raised on the way (by \<^verbatim>\<open>get_frame()\<close> or by \<^verbatim>\<open>int(frame_id)\<close>) is printed and
  the call returns \<open>None\<close>: the call always returns. A frame passed to
  \<^verbatim>\<open>add_fake_frame\<close> is the one \<^verbatim>\<open>find_frame\<close> then returns for that thread and id.
\<close>

theorem find_frame_order_and_containment:
  "(frame_id = IdStr ''*'' \<longrightarrow> get_frame env = Inr current \<longrightarrow>
      SuspendedFramesManager_find_frame env thread_id frame_id w = (Some current, w))
   \<and> (frame_id \<noteq> IdStr ''*'' \<longrightarrow> int_of_frame_id env frame_id = Inr i \<longrightarrow>
        (map_of (thread_id_to_fake_frames w) thread_id = Some fake_frames \<longrightarrow>
         map_of fake_frames i = Some fake \<longrightarrow>
           SuspendedFramesManager_find_frame env thread_id frame_id w = (Some fake, w))
        \<and> (Option.bind (map_of (thread_id_to_fake_frames w) thread_id)
              (\<lambda>fake_frames. map_of fake_frames i) = None \<longrightarrow>
             (map_of (thread_id_to_tracker w) thread_id = Some r \<longrightarrow>
                SuspendedFramesManager_find_frame env thread_id frame_id w =
                  (FramesTracker_find_frame (trackers w ! r) thread_id i, w))
             \<and> (map_of (thread_id_to_tracker w) thread_id = None \<longrightarrow>
                SuspendedFramesManager_find_frame env thread_id frame_id w = (None, w)))
        \<and> fst (SuspendedFramesManager_find_frame env thread_id frame_id
                  (snd (add_fake_frame env thread_id frame_id frame w))) = Some frame)
   \<and> (frame_id = IdStr ''*'' \<and> get_frame env = Inl e
        \<or> frame_id \<noteq> IdStr ''*'' \<and> int_of_frame_id env frame_id = Inl e \<longrightarrow>
        SuspendedFramesManager_find_frame env thread_id frame_id w =
          (None, w\<lparr>stderr := stderr w @ [PrintExc e]\<rparr>))"
proof (intro conjI impI)
  assume "frame_id = IdStr ''*''" "get_frame env = Inr current"
  then show "SuspendedFramesManager_find_frame env thread_id frame_id w = (Some current, w)"
    by (simp add: SuspendedFramesManager_find_frame_def find_frame_try_def)
next
  assume "frame_id \<noteq> IdStr ''*''" "int_of_frame_id env frame_id = Inr i"
    "map_of (thread_id_to_fake_frames w) thread_id = Some fake_frames"
    "map_of fake_frames i = Some fake"
  then show "SuspendedFramesManager_find_frame env thread_id frame_id w = (Some fake, w)"
    by (simp add: SuspendedFramesManager_find_frame_def find_frame_try_def)
next
  assume "frame_id \<noteq> IdStr ''*''" "int_of_frame_id env frame_id = Inr i"
    "Option.bind (map_of (thread_id_to_fake_frames w) thread_id)
       (\<lambda>fake_frames. map_of fake_frames i) = None"
    "map_of (thread_id_to_tracker w) thread_id = Some r"
  then show "SuspendedFramesManager_find_frame env thread_id frame_id w =
      (FramesTracker_find_frame (trackers w ! r) thread_id i, w)"
    by (simp add: SuspendedFramesManager_find_frame_def find_frame_try_def
        split: option.splits)
next
  assume "frame_id \<noteq> IdStr ''*''" "int_of_frame_id env frame_id = Inr i"
    "Option.bind (map_of (thread_id_to_fake_frames w) thread_id)
       (\<lambda>fake_frames. map_of fake_frames i) = None"
    "map_of (thread_id_to_tracker w) thread_id = None"
  then show "SuspendedFramesManager_find_frame env thread_id frame_id w = (None, w)"
    by (simp add: SuspendedFramesManager_find_frame_def find_frame_try_def)
next
  assume "frame_id \<noteq> IdStr ''*''" "int_of_frame_id env frame_id = Inr i"
  then show "fst (SuspendedFramesManager_find_frame env thread_id frame_id
      (snd (add_fake_frame env thread_id frame_id frame w))) = Some frame"
    by (simp add: SuspendedFramesManager_find_frame_def find_frame_try_def add_fake_frame_def
        Let_def update_conv')
next
  assume "frame_id = IdStr ''*'' \<and> get_frame env = Inl e
    \<or> frame_id \<noteq> IdStr ''*'' \<and> int_of_frame_id env frame_id = Inl e"
  then show "SuspendedFramesManager_find_frame env thread_id frame_id w =
      (None, w\<lparr>stderr := stderr w @ [PrintExc e]\<rparr>)"
    by (auto simp: SuspendedFramesManager_find_frame_def find_frame_try_def)
qed

theorem find_frame_order_and_containment_witness:
  "SuspendedFramesManager_find_frame ex_env ''t1'' (IdStr ''*'') ex_fake =
     (Some (Frame 1 ''current'' [] None), ex_fake)
   \<and> SuspendedFramesManager_find_frame ex_env ''t1'' (IdStr ''200'') ex_fake =
       (Some ex_other, ex_fake)
   \<and> SuspendedFramesManager_find_frame ex_env ''t1'' (IdStr ''200'') ex_tracked =
       (Some ex_top, ex_tracked)
   \<and> SuspendedFramesManager_find_frame ex_env ''t1'' (IdInt 100) ex_fake =
       (Some ex_caller, ex_fake)
   \<and> SuspendedFramesManager_find_frame ex_env ''t2'' (IdStr ''200'') ex_fake = (None, ex_fake)
   \<and> SuspendedFramesManager_find_frame ex_env ''t1'' (IdStr ''top'') ex_fake =
       (None, ex_fake\<lparr>stderr := [PrintExc ValueError]\<rparr>)"
proof -
  have star: "get_frame ex_env = Inr (Frame 1 ''current'' [] None)"
    by (simp add: ex_env_def)
  have i200: "int_of_frame_id ex_env (IdStr ''200'') = Inr 200"
    and i100: "int_of_frame_id ex_env (IdInt 100) = Inr 100"
    and itop: "int_of_frame_id ex_env (IdStr ''top'') = Inl ValueError"
    and py200: "py_int ex_env ''200'' = Some 200"
    and pytop: "py_int ex_env ''top'' = None"
    by (simp_all add: ex_env_def)
  have fakes: "map_of (thread_id_to_fake_frames ex_fake) ''t1'' = Some [(200, ex_other)]"
    and no_fake_100: "Option.bind (map_of (thread_id_to_fake_frames ex_fake) ''t1'')
        (\<lambda>fake_frames. map_of fake_frames 100) = None"
    and no_fake_t2: "Option.bind (map_of (thread_id_to_fake_frames ex_fake) ''t2'')
        (\<lambda>fake_frames. map_of fake_frames 200) = None"
    and no_fake: "Option.bind (map_of (thread_id_to_fake_frames ex_tracked) ''t1'')
        (\<lambda>fake_frames. map_of fake_frames 200) = None"
    and tr: "map_of (thread_id_to_tracker ex_fake) ''t1'' = Some 0"
    and tr': "map_of (thread_id_to_tracker ex_tracked) ''t1'' = Some 0"
    and no_tr: "map_of (thread_id_to_tracker ex_fake) ''t2'' = None"
    and err: "stderr ex_fake = []"
    by (simp_all add: ex_fake_eq ex_tracked_eq)
  have f200: "FramesTracker_find_frame (trackers ex_tracked ! 0) ''t1'' 200 = Some ex_top"
    and f100: "FramesTracker_find_frame (trackers ex_fake ! 0) ''t1'' 100 = Some ex_caller"
    by (simp_all add: ex_fake_eq ex_tracked_eq FramesTracker_find_frame_def)
  from find_frame_order_and_containment
    [of "IdStr ''*''" ex_env "Frame 1 ''current'' [] None" "''t1''" ex_fake]
  have "SuspendedFramesManager_find_frame ex_env ''t1'' (IdStr ''*'') ex_fake =
     (Some (Frame 1 ''current'' [] None), ex_fake)"
    by (simp add: star)
  moreover from find_frame_order_and_containment
    [of "IdStr ''200''" ex_env _ "''t1''" ex_fake 200 "[(200, ex_other)]" ex_other]
  have "SuspendedFramesManager_find_frame ex_env ''t1'' (IdStr ''200'') ex_fake =
       (Some ex_other, ex_fake)"
    by (simp add: py200 fakes)
  moreover from find_frame_order_and_containment
    [of "IdStr ''200''" ex_env _ "''t1''" ex_tracked 200 _ _ 0]
  have "SuspendedFramesManager_find_frame ex_env ''t1'' (IdStr ''200'') ex_tracked =
       (Some ex_top, ex_tracked)"
    by (simp add: py200 no_fake tr' f200)
  moreover from find_frame_order_and_containment
    [of "IdInt 100" ex_env _ "''t1''" ex_fake 100 _ _ 0]
  have "SuspendedFramesManager_find_frame ex_env ''t1'' (IdInt 100) ex_fake =
       (Some ex_caller, ex_fake)"
    by (simp add: i100 no_fake_100 tr f100)
  moreover from find_frame_order_and_containment
    [of "IdStr ''200''" ex_env _ "''t2''" ex_fake 200]
  have "SuspendedFramesManager_find_frame ex_env ''t2'' (IdStr ''200'') ex_fake = (None, ex_fake)"
    by (simp add: py200 no_fake_t2 no_tr)
  moreover from find_frame_order_and_containment
    [of "IdStr ''top''" ex_env _ "''t1''" ex_fake _ _ _ _ _ ValueError]
  have "SuspendedFramesManager_find_frame ex_env ''t1'' (IdStr ''top'') ex_fake =
       (None, ex_fake\<lparr>stderr := [PrintExc ValueError]\<rparr>)"
    by (simp add: pytop err)
  ultimately show ?thesis by simp
qed

subsection \<open>The loop of \<^verbatim>\<open>track\<close>\<close>

lemma frame_chain_Some:
  "frame_chain (Some frame) = frame # frame_chain (f_back frame)"
  by (cases frame) simp

lemma track_frame_manager [simp]:
  "thread_id_to_tracker (track_frame env r thread_id cid ids frame w) = thread_id_to_tracker w"
  "thread_id_to_fake_frames (track_frame env r thread_id cid ids frame w) =
    thread_id_to_fake_frames w"
  "stderr (track_frame env r thread_id cid ids frame w) = stderr w"
  "length (trackers (track_frame env r thread_id cid ids frame w)) = length (trackers w)"
  "variable_reference_to_frames_tracker (track_frame env r thread_id cid ids frame w) =
    AList.update (frame_ident frame) r (variable_reference_to_frames_tracker w)"
  by (simp_all add: track_frame_def Let_def)

lemma track_frame_other:
  "r' \<noteq> r \<Longrightarrow> trackers (track_frame env r thread_id cid ids frame w) ! r' = trackers w ! r'"
  by (simp add: track_frame_def Let_def)

lemma track_frame_tracker:
  "r < length (trackers w) \<Longrightarrow>
    trackers (track_frame env r thread_id cid ids frame w) ! r =
      (trackers w ! r)
        \<lparr>frame_id_to_frame :=
           AList.update (frame_ident frame) frame (frame_id_to_frame (trackers w ! r)),
         variable_reference_to_variable :=
           AList.update (frame_ident frame) (FrameVariable frame)
             (variable_reference_to_variable (trackers w ! r)),
         thread_id_to_frame_ids :=
           AList.update cid (ids @ [frame_ident frame]) (thread_id_to_frame_ids (trackers w ! r)),
         frame_id_to_main_thread_id :=
           AList.update (frame_ident frame) thread_id
             (frame_id_to_main_thread_id (trackers w ! r))\<rparr>"
  by (simp add: track_frame_def Let_def register_variable_def)

lemma track_loop_manager [simp]:
  "thread_id_to_tracker (track_loop env r thread_id cid ids frame w) = thread_id_to_tracker w"
  "thread_id_to_fake_frames (track_loop env r thread_id cid ids frame w) =
    thread_id_to_fake_frames w"
  "stderr (track_loop env r thread_id cid ids frame w) = stderr w"
  "length (trackers (track_loop env r thread_id cid ids frame w)) = length (trackers w)"
  by (induction env r thread_id cid ids frame w rule: track_loop.induct) simp_all

lemma track_loop_other:
  "r' \<noteq> r \<Longrightarrow> trackers (track_loop env r thread_id cid ids frame w) ! r' = trackers w ! r'"
  by (induction env r thread_id cid ids frame w rule: track_loop.induct)
    (simp_all add: track_frame_other)

lemma track_loop_index:
  "map_of (variable_reference_to_frames_tracker (track_loop env r thread_id cid ids frame w)) h =
    (if h \<in> frame_ident ` set (frame_chain frame) then Some r
     else map_of (variable_reference_to_frames_tracker w) h)"
  by (induction env r thread_id cid ids frame w rule: track_loop.induct)
    (auto simp: update_conv')

lemma track_loop_flags:
  assumes "r < length (trackers w)"
  shows "main_thread_id (trackers (track_loop env r thread_id cid ids frame w) ! r) =
      main_thread_id (trackers w ! r)"
    and "untracked (trackers (track_loop env r thread_id cid ids frame w) ! r) =
      untracked (trackers w ! r)"
    and "suspended_frames_manager (trackers (track_loop env r thread_id cid ids frame w) ! r) =
      suspended_frames_manager (trackers w ! r)"
    and "frame_id_to_lineno (trackers (track_loop env r thread_id cid ids frame w) ! r) =
      frame_id_to_lineno (trackers w ! r)"
  using assms
  by (induction env r thread_id cid ids frame w rule: track_loop.induct)
    (simp_all add: track_frame_tracker)

lemma track_loop_frames:
  assumes "r < length (trackers w)" and "h \<notin> frame_ident ` set (frame_chain frame)"
  shows "map_of (frame_id_to_frame (trackers (track_loop env r thread_id cid ids frame w) ! r)) h =
      map_of (frame_id_to_frame (trackers w ! r)) h"
  using assms
  by (induction env r thread_id cid ids frame w rule: track_loop.induct)
    (simp_all add: track_frame_tracker update_conv')

lemma track_loop_top_frame:
  assumes "r < length (trackers w)"
    and "frame_ident topmost \<notin> frame_ident ` set (frame_chain (f_back topmost))"
  shows "map_of (frame_id_to_frame (trackers (track_loop env r thread_id cid ids (Some topmost) w) ! r))
      (frame_ident topmost) = Some topmost"
  using assms
  by (cases topmost) (simp add: track_loop_frames track_frame_tracker update_conv')

lemma track_loop_frame_keys:
  assumes "r < length (trackers w)"
  shows "fst ` set (frame_id_to_frame (trackers (track_loop env r thread_id cid ids frame w) ! r)) =
      fst ` set (frame_id_to_frame (trackers w ! r)) \<union> frame_ident ` set (frame_chain frame)"
  using assms
  by (induction env r thread_id cid ids frame w rule: track_loop.induct)
    (auto simp: track_frame_tracker dom_update)

lemma track_loop_variable_keys:
  assumes "r < length (trackers w)"
  shows "fst ` set (variable_reference_to_variable
        (trackers (track_loop env r thread_id cid ids frame w) ! r)) =
      fst ` set (variable_reference_to_variable (trackers w ! r))
        \<union> frame_ident ` set (frame_chain frame)"
  using assms
  by (induction env r thread_id cid ids frame w rule: track_loop.induct)
    (auto simp: track_frame_tracker dom_update)

lemma track_loop_frame_ids:
  assumes "r < length (trackers w)"
  shows "map_of (thread_id_to_frame_ids (trackers (track_loop env r thread_id cid ids frame w) ! r)) k =
      (if k = cid \<and> frame \<noteq> None then Some (ids @ map frame_ident (frame_chain frame))
       else map_of (thread_id_to_frame_ids (trackers w ! r)) k)"
  using assms
  by (induction env r thread_id cid ids frame w rule: track_loop.induct)
    (auto simp: track_frame_tracker update_conv' frame_chain_Some split: option.splits)


subsection \<open>\<^verbatim>\<open>track\<close>\<close>

lemma dict_setdefault_get:
  "map_of (dict_setdefault d k v) k = Some (case map_of d k of None \<Rightarrow> v | Some x \<Rightarrow> x)"
  by (auto simp: dict_setdefault_def map_add_def split: option.splits)

lemma dict_setdefault_other:
  "k' \<noteq> k \<Longrightarrow> map_of (dict_setdefault d k v) k' = map_of d k'"
  by (auto simp: dict_setdefault_def map_add_def split: option.splits)

lemma track_unset:
  "\<not> suspended_frames_manager (trackers w ! r) \<Longrightarrow>
    track env r thread_id frame linenos frame_custom_thread_id w = (Inl AttributeError, w)"
  by (simp add: track_def Let_def)

lemma track_returns:
  "suspended_frames_manager (trackers w ! r) \<Longrightarrow>
    fst (track env r thread_id frame linenos frame_custom_thread_id w) = Inr ()"
  by (simp add: track_def Let_def)

lemma track_manager:
  assumes "suspended_frames_manager (trackers w ! r)"
  shows "thread_id_to_tracker (snd (track env r thread_id frame linenos frame_custom_thread_id w)) =
      AList.update (coroutine_or_main_thread_id thread_id frame_custom_thread_id) r
        (thread_id_to_tracker w)"
    and "thread_id_to_fake_frames
        (snd (track env r thread_id frame linenos frame_custom_thread_id w)) =
      thread_id_to_fake_frames w"
    and "length (trackers (snd (track env r thread_id frame linenos frame_custom_thread_id w))) =
      length (trackers w)"
  using assms by (simp_all add: track_def Let_def)

lemma track_other:
  "r' \<noteq> r \<Longrightarrow>
    trackers (snd (track env r thread_id frame linenos frame_custom_thread_id w)) ! r' =
      trackers w ! r'"
  by (simp add: track_def Let_def track_loop_other)

lemma track_index:
  assumes "suspended_frames_manager (trackers w ! r)"
  shows "map_of (variable_reference_to_frames_tracker
        (snd (track env r thread_id frame linenos frame_custom_thread_id w))) h =
      (if h \<in> frame_ident ` set (frame_chain frame) then Some r
       else map_of (variable_reference_to_frames_tracker w) h)"
  using assms by (simp add: track_def Let_def track_loop_index)

lemma track_flags:
  assumes "r < length (trackers w)" and "suspended_frames_manager (trackers w ! r)"
  shows "main_thread_id
        (trackers (snd (track env r thread_id frame linenos frame_custom_thread_id w)) ! r) =
      Some thread_id"
    and "frame_id_to_lineno
        (trackers (snd (track env r thread_id frame linenos frame_custom_thread_id w)) ! r) =
      linenos"
    and "untracked
        (trackers (snd (track env r thread_id frame linenos frame_custom_thread_id w)) ! r) =
      untracked (trackers w ! r)"
    and "suspended_frames_manager
        (trackers (snd (track env r thread_id frame linenos frame_custom_thread_id w)) ! r)"
  using assms by (simp_all add: track_def Let_def track_loop_flags)

lemma track_frame_keys:
  assumes "r < length (trackers w)" and "suspended_frames_manager (trackers w ! r)"
  shows "fst ` set (frame_id_to_frame
        (trackers (snd (track env r thread_id frame linenos frame_custom_thread_id w)) ! r)) =
      fst ` set (frame_id_to_frame (trackers w ! r)) \<union> frame_ident ` set (frame_chain frame)"
    and "fst ` set (variable_reference_to_variable
        (trackers (snd (track env r thread_id frame linenos frame_custom_thread_id w)) ! r)) =
      fst ` set (variable_reference_to_variable (trackers w ! r))
        \<union> frame_ident ` set (frame_chain frame)"
  using assms by (simp_all add: track_def Let_def track_loop_frame_keys track_loop_variable_keys)

lemma track_frame_ids:
  assumes "r < length (trackers w)" and "suspended_frames_manager (trackers w ! r)"
  shows "map_of (thread_id_to_frame_ids
        (trackers (snd (track env r thread_id frame linenos frame_custom_thread_id w)) ! r))
        (coroutine_or_main_thread_id thread_id frame_custom_thread_id) =
      Some ((case map_of (thread_id_to_frame_ids (trackers w ! r))
                    (coroutine_or_main_thread_id thread_id frame_custom_thread_id) of
               None \<Rightarrow> [] | Some ids \<Rightarrow> ids)
            @ map frame_ident (frame_chain frame))"
  using assms
  by (cases frame) (simp_all add: track_def Let_def track_loop_frame_ids dict_setdefault_get)

lemma track_top_frame:
  assumes "r < length (trackers w)" and "suspended_frames_manager (trackers w ! r)"
    and "frame_ident topmost \<notin> frame_ident ` set (frame_chain (f_back topmost))"
  shows "map_of (frame_id_to_frame
        (trackers (snd (track env r thread_id (Some topmost) linenos frame_custom_thread_id w)) ! r))
        (frame_ident topmost) = Some topmost"
  using assms by (simp add: track_def Let_def track_loop_top_frame)


text \<open>
  C5. On a tracker that still has its manager, \<^verbatim>\<open>track\<close> returns, and afterwards the
  list of the effective id holds what it held before followed by the handles of the
  frames from the top frame along \<^verbatim>\<open>f_back\<close>, in that order, each of them a key of the
  tracker's frame table. So when the tracker had no list for the id and the top frame's
  handle is not that of one of its callers (the handles are the \<^verbatim>\<open>id\<close>s of live objects),
  \<^verbatim>\<open>get_topmost_frame_and_frame_id_to_line\<close> of the tracker and of the manager return the
  top frame with the line map given to \<^verbatim>\<open>track\<close>. For an id with no list, and for an id
  with no tracker, they return \<open>None\<close>.
\<close>

theorem track_walks_frame_chain:
  assumes "r < length (trackers w)" and "suspended_frames_manager (trackers w ! r)"
  shows "fst (track env r thread_id frame linenos frame_custom_thread_id w) = Inr ()
    \<and> map_of (thread_id_to_frame_ids
          (trackers (snd (track env r thread_id frame linenos frame_custom_thread_id w)) ! r))
          (coroutine_or_main_thread_id thread_id frame_custom_thread_id) =
        Some ((case map_of (thread_id_to_frame_ids (trackers w ! r))
                      (coroutine_or_main_thread_id thread_id frame_custom_thread_id) of
                 None \<Rightarrow> [] | Some ids \<Rightarrow> ids)
              @ map frame_ident (frame_chain frame))
    \<and> (\<forall>f \<in> set (frame_chain frame).
          frame_ident f \<in> fst ` set (frame_id_to_frame
            (trackers (snd (track env r thread_id frame linenos frame_custom_thread_id w)) ! r)))
    \<and> (frame = Some topmost
        \<and> map_of (thread_id_to_frame_ids (trackers w ! r))
            (coroutine_or_main_thread_id thread_id frame_custom_thread_id) = None
        \<and> frame_ident topmost \<notin> frame_ident ` set (frame_chain (f_back topmost))
        \<longrightarrow> FramesTracker_get_topmost_frame_and_frame_id_to_line
              (trackers (snd (track env r thread_id frame linenos frame_custom_thread_id w)) ! r)
              (coroutine_or_main_thread_id thread_id frame_custom_thread_id) =
            Inr (Some (topmost, linenos))
          \<and> SuspendedFramesManager_get_topmost_frame_and_frame_id_to_line
              (snd (track env r thread_id frame linenos frame_custom_thread_id w))
              (coroutine_or_main_thread_id thread_id frame_custom_thread_id) =
            Inr (Some (topmost, linenos)))
    \<and> (map_of (thread_id_to_frame_ids t) unknown = None
        \<longrightarrow> FramesTracker_get_topmost_frame_and_frame_id_to_line t unknown = Inr None)
    \<and> (map_of (thread_id_to_tracker w) unknown = None
        \<longrightarrow> SuspendedFramesManager_get_topmost_frame_and_frame_id_to_line w unknown = Inr None)"
proof (intro conjI impI ballI)
  let ?w = "snd (track env r thread_id frame linenos frame_custom_thread_id w)"
  let ?cid = "coroutine_or_main_thread_id thread_id frame_custom_thread_id"
  from assms(2) show "fst (track env r thread_id frame linenos frame_custom_thread_id w) = Inr ()"
    by (rule track_returns)
  from assms show "map_of (thread_id_to_frame_ids (trackers ?w ! r)) ?cid =
        Some ((case map_of (thread_id_to_frame_ids (trackers w ! r)) ?cid of
                 None \<Rightarrow> [] | Some ids \<Rightarrow> ids)
              @ map frame_ident (frame_chain frame))"
    by (rule track_frame_ids)
  show "frame_ident f \<in> fst ` set (frame_id_to_frame (trackers ?w ! r))"
    if "f \<in> set (frame_chain frame)" for f
    using that by (simp add: track_frame_keys(1) [OF assms])
  {
    assume top: "frame = Some topmost
        \<and> map_of (thread_id_to_frame_ids (trackers w ! r)) ?cid = None
        \<and> frame_ident topmost \<notin> frame_ident ` set (frame_chain (f_back topmost))"
    then have ids: "map_of (thread_id_to_frame_ids (trackers ?w ! r)) ?cid =
        Some (frame_ident topmost # map frame_ident (frame_chain (f_back topmost)))"
      by (simp add: track_frame_ids [OF assms] frame_chain_Some)
    from top have fr: "map_of (frame_id_to_frame (trackers ?w ! r)) (frame_ident topmost) =
        Some topmost"
      by (simp add: track_top_frame [OF assms])
    from top have ln: "frame_id_to_lineno (trackers ?w ! r) = linenos"
      by (simp add: track_flags(2) [OF assms])
    from ids fr ln show t: "FramesTracker_get_topmost_frame_and_frame_id_to_line
        (trackers ?w ! r) ?cid = Inr (Some (topmost, linenos))"
      by (simp add: FramesTracker_get_topmost_frame_and_frame_id_to_line_def)
    have "map_of (thread_id_to_tracker ?w) ?cid = Some r"
      by (simp add: track_manager(1) [OF assms(2)] update_conv')
    with t show "SuspendedFramesManager_get_topmost_frame_and_frame_id_to_line ?w ?cid =
        Inr (Some (topmost, linenos))"
      by (simp add: SuspendedFramesManager_get_topmost_frame_and_frame_id_to_line_def)
  }
  show "FramesTracker_get_topmost_frame_and_frame_id_to_line t unknown = Inr None"
    if "map_of (thread_id_to_frame_ids t) unknown = None"
    using that by (simp add: FramesTracker_get_topmost_frame_and_frame_id_to_line_def)
  show "SuspendedFramesManager_get_topmost_frame_and_frame_id_to_line w unknown = Inr None"
    if "map_of (thread_id_to_tracker w) unknown = None"
    using that by (simp add: SuspendedFramesManager_get_topmost_frame_and_frame_id_to_line_def)
qed

theorem track_walks_frame_chain_witness:
  "fst (track ex_env 0 ''t1'' (Some ex_top) [(200, 7)] None ex_two_trackers) = Inr ()
   \<and> map_of (thread_id_to_frame_ids (trackers ex_tracked ! 0)) ''t1'' = Some [200, 100]
   \<and> {200, 100} \<subseteq> fst ` set (frame_id_to_frame (trackers ex_tracked ! 0))
   \<and> FramesTracker_get_topmost_frame_and_frame_id_to_line (trackers ex_tracked ! 0) ''t1'' =
       Inr (Some (ex_top, [(200, 7)]))
   \<and> SuspendedFramesManager_get_topmost_frame_and_frame_id_to_line ex_tracked ''t1'' =
       Inr (Some (ex_top, [(200, 7)]))
   \<and> FramesTracker_get_topmost_frame_and_frame_id_to_line (trackers ex_tracked ! 0) ''t2'' =
       Inr None
   \<and> SuspendedFramesManager_get_topmost_frame_and_frame_id_to_line ex_two_trackers ''t2'' =
       Inr None"
proof -
  have r: "0 < length (trackers ex_two_trackers)"
    and m: "suspended_frames_manager (trackers ex_two_trackers ! 0)"
    and n: "map_of (thread_id_to_frame_ids (trackers ex_two_trackers ! 0)) ''t1'' = None"
    and u: "map_of (thread_id_to_tracker ex_two_trackers) ''t2'' = None"
    by (simp_all add: ex_two_trackers_eq FramesTracker_init_def)
  have c: "coroutine_or_main_thread_id ''t1'' None = ''t1''"
    by (simp add: coroutine_or_main_thread_id_def)
  have ch: "frame_chain (Some ex_top) = [ex_top, ex_caller]"
    and i: "frame_ident ex_top = 200" "frame_ident ex_caller = 100"
    and b: "f_back ex_top = Some ex_caller"
    by (simp_all add: ex_top_def ex_caller_def)
  have ch': "frame_chain (Some ex_caller) = [ex_caller]"
    by (simp add: ex_caller_def)
  have u': "map_of (thread_id_to_frame_ids (trackers ex_tracked ! 0)) ''t2'' = None"
    by (simp add: ex_tracked_eq)
  from track_walks_frame_chain [OF r m, of ex_env "''t1''" "Some ex_top" "[(200, 7)]" None
      ex_top "trackers ex_tracked ! 0" "''t2''"]
  show ?thesis
    unfolding ex_tracked_def [symmetric]
    by (simp add: c ch ch' i b n u u' del: frame_chain.simps)
qed

subsection \<open>Calls that only register nodes\<close>

lemma registers_only_refl: "registers_only t t"
  by (simp add: registers_only_def)

lemma registers_only_trans:
  "registers_only t t' \<Longrightarrow> registers_only t' t'' \<Longrightarrow> registers_only t t''"
  unfolding registers_only_def
  by (metis (no_types, lifting) frames_tracker.surjective frames_tracker.update_convs(8)
      subset_trans)

lemma registers_only_register: "registers_only t (register_variable env var t)"
  by (auto simp: registers_only_def register_variable_def dom_update)

lemma registers_only_new_variables: "registers_only t (snd (new_variables env specs t))"
proof (induction env specs t rule: new_variables.induct)
  case (1 env t)
  show ?case by (simp add: registers_only_refl)
next
  case (2 env name v is_ret ev rest t)
  have "registers_only t (register_variable env (ObjectVariable name v is_ret ev) t)"
    by (rule registers_only_register)
  moreover have "registers_only (register_variable env (ObjectVariable name v is_ret ev) t)
      (snd (new_variables env rest (register_variable env (ObjectVariable name v is_ret ev) t)))"
    using 2 [of "(ObjectVariable name v is_ret ev,
        register_variable env (ObjectVariable name v is_ret ev) t)"]
    by (simp add: new_ObjectVariable_eq)
  ultimately show ?case
    by (simp add: new_ObjectVariable_eq split_beta registers_only_trans)
qed


lemma registers_only_frame_children:
  "registers_only t (snd (frame_children env locals t))"
proof (induction locals arbitrary: t)
  case Nil
  show ?case by (simp add: registers_only_refl)
next
  case (Cons kv rest)
  obtain key val where kv: "kv = (key, val)" by (cases kv)
  show ?case
  proof (cases "key = RETURN_VALUES_DICT env")
    case False
    let ?t = "register_variable env (ObjectVariable key val False (Some key)) t"
    have "registers_only t ?t" by (rule registers_only_register)
    moreover have "registers_only ?t (snd (frame_children env rest ?t))" by (rule Cons.IH)
    moreover have "snd (frame_children env (kv # rest) t) = snd (frame_children env rest ?t)"
      using False
      by (cases "frame_children env rest ?t")
        (simp add: kv new_ObjectVariable_eq split: sum.splits)
    ultimately show ?thesis by (simp add: registers_only_trans)
  next
    case True
    show ?thesis
    proof (cases "dict_iter_items env val")
      case None
      with True show ?thesis by (simp add: kv registers_only_refl)
    next
      case (Some items)
      let ?t = "snd (new_variables env
                     (map (\<lambda>(return_key, return_value).
                        (return_key, return_value, True,
                         Some (key @ ''['' @ py_repr env return_key @ '']''))) items) t)"
      have "registers_only t ?t" by (rule registers_only_new_variables)
      moreover have "registers_only ?t (snd (frame_children env rest ?t))" by (rule Cons.IH)
      moreover have "snd (frame_children env (kv # rest) t) = snd (frame_children env rest ?t)"
        using True Some
        by (cases "frame_children env rest ?t")
          (simp add: kv split_beta split: sum.splits)
      ultimately show ?thesis by (simp add: registers_only_trans)
    qed
  qed
qed

lemma registers_only_children:
  "registers_only t (snd (get_children_variables env var fmt t))"
proof (cases var)
  case (ObjectVariable name v is_ret ev)
  then show ?thesis
    by (simp add: Let_def split_beta registers_only_refl registers_only_new_variables
        split: option.splits)
next
  case (FrameVariable frame)
  have "snd (get_children_variables env (FrameVariable frame) fmt t) =
      snd (frame_children env (f_locals frame) t)"
    by (cases "frame_children env (f_locals frame) t") (simp split: sum.splits)
  with FrameVariable show ?thesis by (simp add: registers_only_frame_children)
qed

lemma registers_only_obtain:
  "registers_only t (snd (obtain_as_variable env name v evaluate_name t))"
  by (simp add: obtain_as_variable_def Let_def new_ObjectVariable_eq registers_only_refl
      registers_only_register split: option.splits)

lemma registers_only_fields:
  assumes "registers_only t t'"
  shows "frame_id_to_frame t' = frame_id_to_frame t"
    and "untracked t' = untracked t"
    and "main_thread_id t' = main_thread_id t"
    and "suspended_frames_manager t' = suspended_frames_manager t"
    and "thread_id_to_frame_ids t' = thread_id_to_frame_ids t"
    and "h \<in> fst ` set (variable_reference_to_variable t)
         \<Longrightarrow> h \<in> fst ` set (variable_reference_to_variable t')"
proof -
  from assms have e: "t' = t\<lparr>variable_reference_to_variable := variable_reference_to_variable t'\<rparr>"
    and s: "fst ` set (variable_reference_to_variable t)
         \<subseteq> fst ` set (variable_reference_to_variable t')"
    by (simp_all add: registers_only_def)
  show "frame_id_to_frame t' = frame_id_to_frame t" by (subst e) simp
  show "untracked t' = untracked t" by (subst e) simp
  show "main_thread_id t' = main_thread_id t" by (subst e) simp
  show "suspended_frames_manager t' = suspended_frames_manager t" by (subst e) simp
  show "thread_id_to_frame_ids t' = thread_id_to_frame_ids t" by (subst e) simp
  show "h \<in> fst ` set (variable_reference_to_variable t')"
    if "h \<in> fst ` set (variable_reference_to_variable t)"
    using that s by blast
qed

subsection \<open>Deleting from the manager's indices\<close>

lemma del_frame_ids_keeps:
  "h \<notin> set frame_ids \<Longrightarrow> map_of (snd (del_frame_ids frame_ids index)) h = map_of index h"
  by (induction frame_ids arbitrary: index)
    (auto simp: dict_del_def delete_conv' split: sum.splits)

lemma del_frame_ids_shrinks:
  "map_of (snd (del_frame_ids frame_ids index)) h = Some r \<Longrightarrow> map_of index h = Some r"
proof (induction frame_ids arbitrary: index)
  case Nil
  then show ?case by simp
next
  case (Cons frame_id rest)
  show ?case
  proof (cases "frame_id \<in> fst ` set index")
    case True
    with Cons.prems have "map_of (snd (del_frame_ids rest (AList.delete frame_id index))) h = Some r"
      by (simp add: dict_del_def)
    then have "map_of (AList.delete frame_id index) h = Some r" by (rule Cons.IH)
    then show ?thesis by (simp add: delete_conv' split: if_splits)
  next
    case False
    with Cons.prems show ?thesis by (simp add: dict_del_def)
  qed
qed

lemma del_frame_ids_done:
  "fst (del_frame_ids frame_ids index) = Inr () \<Longrightarrow> h \<in> set frame_ids
    \<Longrightarrow> map_of (snd (del_frame_ids frame_ids index)) h = None"
proof (induction frame_ids arbitrary: index)
  case Nil
  then show ?case by simp
next
  case (Cons frame_id rest)
  from Cons.prems(1) have k: "frame_id \<in> fst ` set index"
    and r: "fst (del_frame_ids rest (AList.delete frame_id index)) = Inr ()"
    by (auto simp: dict_del_def split: if_splits)
  show ?case
  proof (cases "h \<in> set rest")
    case True
    with r k show ?thesis by (simp add: dict_del_def Cons.IH)
  next
    case False
    with Cons.prems(2) have "h = frame_id" by simp
    with False k show ?thesis by (simp add: dict_del_def del_frame_ids_keeps delete_conv')
  qed
qed

lemma dom_delete:
  "fst ` set (AList.delete k al) = fst ` set al - {k}"
  by (metis delete_keys set_map set_removeAll)

lemma del_frame_ids_succeeds:
  "distinct frame_ids \<Longrightarrow> set frame_ids \<subseteq> fst ` set index
    \<Longrightarrow> fst (del_frame_ids frame_ids index) = Inr ()"
proof (induction frame_ids arbitrary: index)
  case Nil
  then show ?case by simp
next
  case (Cons frame_id rest)
  from Cons.prems have "set rest \<subseteq> fst ` set (AList.delete frame_id index)"
    by (auto simp: dom_delete)
  with Cons.prems Cons.IH [of "AList.delete frame_id index"] show ?case
    by (simp add: dict_del_def)
qed

lemma pop_thread_ids_subset:
  "set (foldl (\<lambda>d thread_id. AList.delete thread_id d) d thread_ids) \<subseteq> set d"
proof (induction thread_ids arbitrary: d)
  case Nil
  show ?case by simp
next
  case (Cons thread_id rest)
  have "set (AList.delete thread_id d) \<subseteq> set d" by (auto simp: AList.delete_eq)
  with Cons.IH [of "AList.delete thread_id d"] show ?case by auto
qed

lemma pop_thread_ids_get:
  "map_of (foldl (\<lambda>d thread_id. AList.delete thread_id d) d thread_ids) k =
    (if k \<in> set thread_ids then None else map_of d k)"
  by (induction thread_ids arbitrary: d) (auto simp: delete_conv')

lemma update_values:
  "snd ` set (AList.update k v al) \<subseteq> insert v (snd ` set al)"
  by (induction al) auto

subsection \<open>\<^verbatim>\<open>untrack_all\<close>\<close>

lemma untrack_all_untracked:
  "untracked (trackers w ! r) \<Longrightarrow> untrack_all r w = (Inr (), w)"
  by (simp add: untrack_all_def)

lemma untrack_all_snd:
  "snd (untrack_all r w) =
    (if untracked (trackers w ! r) then w
     else if \<not> suspended_frames_manager (trackers w ! r)
             \<and> (thread_id_to_frame_ids (trackers w ! r) \<noteq> []
                \<or> frame_id_to_frame (trackers w ! r) \<noteq> [])
     then w\<lparr>trackers := (trackers w)[r := (trackers w ! r)\<lparr>untracked := True\<rparr>]\<rparr>
     else w\<lparr>thread_id_to_tracker :=
              foldl (\<lambda>d thread_id. AList.delete thread_id d) (thread_id_to_tracker w)
                (map fst (thread_id_to_frame_ids (trackers w ! r))),
            variable_reference_to_frames_tracker :=
              snd (del_frame_ids (map fst (frame_id_to_frame (trackers w ! r)))
                     (variable_reference_to_frames_tracker w)),
            trackers := (trackers w)
              [r := if fst (del_frame_ids (map fst (frame_id_to_frame (trackers w ! r)))
                             (variable_reference_to_frames_tracker w)) = Inr ()
                    then clear_tracker ((trackers w ! r)\<lparr>untracked := True\<rparr>)
                    else (trackers w ! r)\<lparr>untracked := True\<rparr>]\<rparr>)"
proof (cases "untracked (trackers w ! r)")
  case True
  then show ?thesis by (simp add: untrack_all_def)
next
  case False
  show ?thesis
  proof (cases "\<not> suspended_frames_manager (trackers w ! r)
             \<and> (thread_id_to_frame_ids (trackers w ! r) \<noteq> []
                \<or> frame_id_to_frame (trackers w ! r) \<noteq> [])")
    case True
    with False show ?thesis by (simp add: untrack_all_def Let_def)
  next
    case live: False
    obtain res index where d: "del_frame_ids (map fst (frame_id_to_frame (trackers w ! r)))
        (variable_reference_to_frames_tracker w) = (res, index)"
      by (cases "del_frame_ids (map fst (frame_id_to_frame (trackers w ! r)))
        (variable_reference_to_frames_tracker w)")
    have "snd (untrack_all r w) =
        (case (res, index) of
           (Inl e, index) \<Rightarrow>
             w\<lparr>thread_id_to_tracker :=
                 foldl (\<lambda>d thread_id. AList.delete thread_id d) (thread_id_to_tracker w)
                   (map fst (thread_id_to_frame_ids (trackers w ! r))),
               variable_reference_to_frames_tracker := index,
               trackers := (trackers w)[r := (trackers w ! r)\<lparr>untracked := True\<rparr>]\<rparr>
         | (Inr u, index) \<Rightarrow>
             w\<lparr>thread_id_to_tracker :=
                 foldl (\<lambda>d thread_id. AList.delete thread_id d) (thread_id_to_tracker w)
                   (map fst (thread_id_to_frame_ids (trackers w ! r))),
               variable_reference_to_frames_tracker := index,
               trackers := (trackers w)
                 [r := clear_tracker ((trackers w ! r)\<lparr>untracked := True\<rparr>)]\<rparr>)"
      unfolding untrack_all_def Let_def d [symmetric]
      using False live by (simp split: prod.splits sum.splits) blast
    also have "\<dots> = w\<lparr>thread_id_to_tracker :=
              foldl (\<lambda>d thread_id. AList.delete thread_id d) (thread_id_to_tracker w)
                (map fst (thread_id_to_frame_ids (trackers w ! r))),
            variable_reference_to_frames_tracker := index,
            trackers := (trackers w)
              [r := if res = Inr ()
                    then clear_tracker ((trackers w ! r)\<lparr>untracked := True\<rparr>)
                    else (trackers w ! r)\<lparr>untracked := True\<rparr>]\<rparr>"
      by (cases res) simp_all
    finally show ?thesis
      unfolding d fst_conv snd_conv if_not_P [OF False] if_not_P [OF live] .
  qed
qed


lemma untrack_all_manager:
  "length (trackers (snd (untrack_all r w))) = length (trackers w)"
  "thread_id_to_fake_frames (snd (untrack_all r w)) = thread_id_to_fake_frames w"
  "stderr (snd (untrack_all r w)) = stderr w"
  "set (thread_id_to_tracker (snd (untrack_all r w))) \<subseteq> set (thread_id_to_tracker w)"
  by (simp_all add: untrack_all_snd pop_thread_ids_subset)

lemma untrack_all_other:
  "r' \<noteq> r \<Longrightarrow> trackers (snd (untrack_all r w)) ! r' = trackers w ! r'"
  by (simp add: untrack_all_snd)


lemma untrack_all_index:
  "variable_reference_to_frames_tracker (snd (untrack_all r w)) =
    (if untracked (trackers w ! r)
        \<or> \<not> suspended_frames_manager (trackers w ! r)
             \<and> (thread_id_to_frame_ids (trackers w ! r) \<noteq> []
                \<or> frame_id_to_frame (trackers w ! r) \<noteq> [])
     then variable_reference_to_frames_tracker w
     else snd (del_frame_ids (map fst (frame_id_to_frame (trackers w ! r)))
                     (variable_reference_to_frames_tracker w)))"
  unfolding untrack_all_snd by simp


lemma untrack_all_index_shrinks:
  assumes "map_of (variable_reference_to_frames_tracker (snd (untrack_all r w))) h = Some r'"
  shows "map_of (variable_reference_to_frames_tracker w) h = Some r'"
proof (cases "untracked (trackers w ! r)
        \<or> \<not> suspended_frames_manager (trackers w ! r)
             \<and> (thread_id_to_frame_ids (trackers w ! r) \<noteq> []
                \<or> frame_id_to_frame (trackers w ! r) \<noteq> [])")
  case True
  from assms show ?thesis unfolding untrack_all_index if_P [OF True] .
next
  case False
  from assms show ?thesis unfolding untrack_all_index if_not_P [OF False]
    by (rule del_frame_ids_shrinks)
qed

lemma untrack_all_index_keeps:
  assumes "h \<notin> fst ` set (frame_id_to_frame (trackers w ! r))"
  shows "map_of (variable_reference_to_frames_tracker (snd (untrack_all r w))) h =
        map_of (variable_reference_to_frames_tracker w) h"
proof -
  from assms have "h \<notin> set (map fst (frame_id_to_frame (trackers w ! r)))" by simp
  then have "map_of (snd (del_frame_ids (map fst (frame_id_to_frame (trackers w ! r)))
                     (variable_reference_to_frames_tracker w))) h =
      map_of (variable_reference_to_frames_tracker w) h"
    by (rule del_frame_ids_keeps)
  then show ?thesis unfolding untrack_all_index by simp
qed

lemma untrack_all_self:
  "r < length (trackers w) \<Longrightarrow>
    trackers (snd (untrack_all r w)) ! r =
      (if untracked (trackers w ! r) then trackers w ! r
       else if \<not> suspended_frames_manager (trackers w ! r)
             \<and> (thread_id_to_frame_ids (trackers w ! r) \<noteq> []
                \<or> frame_id_to_frame (trackers w ! r) \<noteq> [])
         then (trackers w ! r)\<lparr>untracked := True\<rparr>
       else if fst (del_frame_ids (map fst (frame_id_to_frame (trackers w ! r)))
                     (variable_reference_to_frames_tracker w)) = Inr ()
         then clear_tracker ((trackers w ! r)\<lparr>untracked := True\<rparr>)
       else (trackers w ! r)\<lparr>untracked := True\<rparr>)"
  unfolding untrack_all_snd by simp

lemma untrack_all_sets_untracked:
  "r < length (trackers w) \<Longrightarrow> untracked (trackers (snd (untrack_all r w)) ! r)"
  by (simp add: untrack_all_self clear_tracker_def)

text \<open>
  The tracker itself keeps its tables, or has them cleared with every one of its frames
  out of the index.
\<close>

lemma untrack_all_tracker:
  assumes "r < length (trackers w)"
  shows "frame_id_to_frame (trackers (snd (untrack_all r w)) ! r) =
        frame_id_to_frame (trackers w ! r)
      \<and> variable_reference_to_variable (trackers (snd (untrack_all r w)) ! r) =
        variable_reference_to_variable (trackers w ! r)
    \<or> frame_id_to_frame (trackers (snd (untrack_all r w)) ! r) = []
      \<and> variable_reference_to_variable (trackers (snd (untrack_all r w)) ! r) = []
      \<and> (\<forall>h \<in> fst ` set (frame_id_to_frame (trackers w ! r)).
            map_of (variable_reference_to_frames_tracker (snd (untrack_all r w))) h = None)"
proof (cases "\<not> untracked (trackers w ! r)
    \<and> \<not> (\<not> suspended_frames_manager (trackers w ! r)
             \<and> (thread_id_to_frame_ids (trackers w ! r) \<noteq> []
                \<or> frame_id_to_frame (trackers w ! r) \<noteq> []))
    \<and> fst (del_frame_ids (map fst (frame_id_to_frame (trackers w ! r)))
                     (variable_reference_to_frames_tracker w)) = Inr ()")
  case True
  then have u: "\<not> untracked (trackers w ! r)"
    and c: "\<not> (\<not> suspended_frames_manager (trackers w ! r)
             \<and> (thread_id_to_frame_ids (trackers w ! r) \<noteq> []
                \<or> frame_id_to_frame (trackers w ! r) \<noteq> []))"
    and d: "fst (del_frame_ids (map fst (frame_id_to_frame (trackers w ! r)))
                     (variable_reference_to_frames_tracker w)) = Inr ()"
    by blast+
  have t: "trackers (snd (untrack_all r w)) ! r =
      clear_tracker ((trackers w ! r)\<lparr>untracked := True\<rparr>)"
    and i: "variable_reference_to_frames_tracker (snd (untrack_all r w)) =
      snd (del_frame_ids (map fst (frame_id_to_frame (trackers w ! r)))
                     (variable_reference_to_frames_tracker w))"
    by (simp_all only: untrack_all_self [OF assms] untrack_all_index u c d
        if_False if_True simp_thms)
  have "map_of (variable_reference_to_frames_tracker (snd (untrack_all r w))) h = None"
    if "h \<in> fst ` set (frame_id_to_frame (trackers w ! r))" for h
    unfolding i using d that by (simp add: del_frame_ids_done)
  then show ?thesis by (simp add: t clear_tracker_def)
next
  case False
  then have "trackers (snd (untrack_all r w)) ! r = trackers w ! r
      \<or> trackers (snd (untrack_all r w)) ! r = (trackers w ! r)\<lparr>untracked := True\<rparr>"
    unfolding untrack_all_self [OF assms] by presburger
  then show ?thesis by (elim disjE) simp_all
qed

subsection \<open>What holds in every state that is reached\<close>

lemma registry_invI:
  assumes "\<And>r. r \<in> snd ` set (thread_id_to_tracker w) \<Longrightarrow> r < length (trackers w)"
    and "\<And>h r. map_of (variable_reference_to_frames_tracker w) h = Some r
          \<Longrightarrow> r < length (trackers w)
              \<and> h \<in> fst ` set (frame_id_to_frame (trackers w ! r))
              \<and> h \<in> fst ` set (variable_reference_to_variable (trackers w ! r))"
  shows "registry_inv w"
  unfolding registry_inv_def using assms by blast

lemma registry_inv_tracker:
  "registry_inv w \<Longrightarrow> r \<in> snd ` set (thread_id_to_tracker w) \<Longrightarrow> r < length (trackers w)"
  unfolding registry_inv_def by blast

lemma registry_inv_index:
  "registry_inv w \<Longrightarrow> map_of (variable_reference_to_frames_tracker w) h = Some r
    \<Longrightarrow> r < length (trackers w)
        \<and> h \<in> fst ` set (frame_id_to_frame (trackers w ! r))
        \<and> h \<in> fst ` set (variable_reference_to_variable (trackers w ! r))"
  unfolding registry_inv_def by blast

lemma registry_inv_init: "registry_inv SuspendedFramesManager_init"
  by (simp add: registry_inv_def SuspendedFramesManager_init_def)

lemma registry_inv_new:
  assumes "registry_inv w"
  shows "registry_inv (snd (new_FramesTracker w))"
proof (rule registry_invI)
  fix r
  assume "r \<in> snd ` set (thread_id_to_tracker (snd (new_FramesTracker w)))"
  then have "r \<in> snd ` set (thread_id_to_tracker w)" by (simp add: new_FramesTracker_def)
  from registry_inv_tracker [OF assms this]
  show "r < length (trackers (snd (new_FramesTracker w)))" by (simp add: new_FramesTracker_def)
next
  fix h r
  assume "map_of (variable_reference_to_frames_tracker (snd (new_FramesTracker w))) h = Some r"
  then have "map_of (variable_reference_to_frames_tracker w) h = Some r"
    by (simp add: new_FramesTracker_def)
  from registry_inv_index [OF assms this]
  show "r < length (trackers (snd (new_FramesTracker w)))
      \<and> h \<in> fst ` set (frame_id_to_frame (trackers (snd (new_FramesTracker w)) ! r))
      \<and> h \<in> fst ` set (variable_reference_to_variable (trackers (snd (new_FramesTracker w)) ! r))"
    by (simp add: new_FramesTracker_def nth_append)
qed

lemma registry_inv_track:
  assumes "registry_inv w" and "r < length (trackers w)"
  shows "registry_inv (snd (track env r thread_id frame linenos frame_custom_thread_id w))"
proof (cases "suspended_frames_manager (trackers w ! r)")
  case False
  with assms(1) show ?thesis by (simp add: track_unset)
next
  case True
  let ?w = "snd (track env r thread_id frame linenos frame_custom_thread_id w)"
  have "r' < length (trackers ?w)" if "r' \<in> snd ` set (thread_id_to_tracker ?w)" for r'
  proof -
    have "snd ` set (AList.update (coroutine_or_main_thread_id thread_id frame_custom_thread_id) r
          (thread_id_to_tracker w)) \<subseteq> insert r (snd ` set (thread_id_to_tracker w))"
      by (rule update_values)
    with that have "r' = r \<or> r' \<in> snd ` set (thread_id_to_tracker w)"
      unfolding track_manager(1) [OF True] by blast
    then have "r' < length (trackers w)"
    proof
      assume "r' = r"
      with assms(2) show ?thesis by simp
    next
      assume "r' \<in> snd ` set (thread_id_to_tracker w)"
      with assms(1) show ?thesis by (rule registry_inv_tracker)
    qed
    then show ?thesis by (simp add: track_manager(3) [OF True])
  qed
  moreover have "r' < length (trackers ?w)
      \<and> h \<in> fst ` set (frame_id_to_frame (trackers ?w ! r'))
      \<and> h \<in> fst ` set (variable_reference_to_variable (trackers ?w ! r'))"
    if "map_of (variable_reference_to_frames_tracker ?w) h = Some r'" for h r'
  proof (cases "h \<in> frame_ident ` set (frame_chain frame)")
    case True
    with that have "r' = r" by (simp add: track_index [OF \<open>suspended_frames_manager _\<close>])
    with True assms(2) show ?thesis
      by (simp add: track_manager(3) [OF \<open>suspended_frames_manager _\<close>]
          track_frame_keys [OF assms(2) \<open>suspended_frames_manager _\<close>])
  next
    case False
    with that have "map_of (variable_reference_to_frames_tracker w) h = Some r'"
      by (simp add: track_index [OF \<open>suspended_frames_manager _\<close>])
    from registry_inv_index [OF assms(1) this] have old: "r' < length (trackers w)"
      "h \<in> fst ` set (frame_id_to_frame (trackers w ! r'))"
      "h \<in> fst ` set (variable_reference_to_variable (trackers w ! r'))"
      by simp_all
    then show ?thesis
      by (cases "r' = r")
        (simp_all add: track_manager(3) [OF \<open>suspended_frames_manager _\<close>] track_other
          track_frame_keys [OF assms(2) \<open>suspended_frames_manager _\<close>])
  qed
  ultimately show ?thesis by (rule registry_invI)
qed

lemma registry_inv_untrack:
  assumes "registry_inv w" and "r < length (trackers w)"
  shows "registry_inv (snd (untrack_all r w))"
proof -
  let ?w = "snd (untrack_all r w)"
  have "r' < length (trackers ?w)" if "r' \<in> snd ` set (thread_id_to_tracker ?w)" for r'
  proof -
    from that untrack_all_manager(4) [of r w]
    have "r' \<in> snd ` set (thread_id_to_tracker w)" by blast
    from registry_inv_tracker [OF assms(1) this] show ?thesis
      by (simp add: untrack_all_manager(1))
  qed
  moreover have "r' < length (trackers ?w)
      \<and> h \<in> fst ` set (frame_id_to_frame (trackers ?w ! r'))
      \<and> h \<in> fst ` set (variable_reference_to_variable (trackers ?w ! r'))"
    if "map_of (variable_reference_to_frames_tracker ?w) h = Some r'" for h r'
  proof -
    from that have "map_of (variable_reference_to_frames_tracker w) h = Some r'"
      by (rule untrack_all_index_shrinks)
    from registry_inv_index [OF assms(1) this] have old: "r' < length (trackers w)"
      "h \<in> fst ` set (frame_id_to_frame (trackers w ! r'))"
      "h \<in> fst ` set (variable_reference_to_variable (trackers w ! r'))"
      by simp_all
    show ?thesis
    proof (cases "r' = r")
      case False
      with old show ?thesis by (simp add: untrack_all_manager(1) untrack_all_other)
    next
      case True
      from untrack_all_tracker [OF assms(2)] show ?thesis
      proof (elim disjE conjE)
        assume "frame_id_to_frame (trackers ?w ! r) = frame_id_to_frame (trackers w ! r)"
          "variable_reference_to_variable (trackers ?w ! r) =
            variable_reference_to_variable (trackers w ! r)"
        with old show ?thesis by (simp add: True untrack_all_manager(1))
      next
        assume "\<forall>h \<in> fst ` set (frame_id_to_frame (trackers w ! r)).
            map_of (variable_reference_to_frames_tracker ?w) h = None"
        with old(2) that show ?thesis by (simp add: True)
      qed
    qed
  qed
  ultimately show ?thesis by (rule registry_invI)
qed

lemma registry_inv_on_tracker:
  assumes "registry_inv w" and "r < length (trackers w)"
    and "registers_only (trackers w ! r) (snd (f (trackers w ! r)))"
  shows "registry_inv (snd (on_tracker r f w))"
proof -
  have "h \<in> fst ` set (frame_id_to_frame (((trackers w)[r := snd (f (trackers w ! r))]) ! r'))
      \<and> h \<in> fst ` set (variable_reference_to_variable
            (((trackers w)[r := snd (f (trackers w ! r))]) ! r'))"
    if "r' < length (trackers w)" "h \<in> fst ` set (frame_id_to_frame (trackers w ! r'))"
      "h \<in> fst ` set (variable_reference_to_variable (trackers w ! r'))" for h r'
    using that registers_only_fields(1,6) [OF assms(3)]
    by (cases "r' = r") simp_all
  note step = this
  show ?thesis
  proof (rule registry_invI)
    fix r'
    assume "r' \<in> snd ` set (thread_id_to_tracker (snd (on_tracker r f w)))"
    then have "r' \<in> snd ` set (thread_id_to_tracker w)" by (simp add: on_tracker_def)
    from registry_inv_tracker [OF assms(1) this]
    show "r' < length (trackers (snd (on_tracker r f w)))" by (simp add: on_tracker_def)
  next
    fix h r'
    assume "map_of (variable_reference_to_frames_tracker (snd (on_tracker r f w))) h = Some r'"
    then have "map_of (variable_reference_to_frames_tracker w) h = Some r'"
      by (simp add: on_tracker_def)
    from registry_inv_index [OF assms(1) this] step [of r' h]
    show "r' < length (trackers (snd (on_tracker r f w)))
      \<and> h \<in> fst ` set (frame_id_to_frame (trackers (snd (on_tracker r f w)) ! r'))
      \<and> h \<in> fst ` set (variable_reference_to_variable (trackers (snd (on_tracker r f w)) ! r'))"
      by (simp add: on_tracker_def)
  qed
qed

lemma registry_inv_fake:
  "registry_inv w \<Longrightarrow> registry_inv (snd (add_fake_frame env thread_id frame_id frame w))"
  by (simp add: registry_inv_def add_fake_frame_def Let_def split: sum.splits)

lemma registry_inv_find:
  "registry_inv w \<Longrightarrow>
    registry_inv (snd (SuspendedFramesManager_find_frame env thread_id frame_id w))"
  by (simp add: registry_inv_def SuspendedFramesManager_find_frame_def split: sum.splits)

lemma reachable_registry_inv:
  "reachable env apart w \<Longrightarrow> registry_inv w"
proof (induction rule: reachable.induct)
  case reach_init
  show ?case by (rule registry_inv_init)
next
  case (reach_new w)
  then show ?case by (simp add: registry_inv_new)
next
  case (reach_track w r frame thread_id linenos frame_custom_thread_id)
  then show ?case by (simp add: registry_inv_track)
next
  case (reach_untrack w r)
  then show ?case by (simp add: registry_inv_untrack)
next
  case (reach_obtain w r name v evaluate_name)
  then show ?case by (simp add: registry_inv_on_tracker registers_only_obtain)
next
  case (reach_children w r var fmt)
  then show ?case by (simp add: registry_inv_on_tracker registers_only_children)
next
  case (reach_fake w thread_id frame_id frame)
  then show ?case by (simp add: registry_inv_fake)
next
  case (reach_find w thread_id frame_id)
  then show ?case by (simp add: registry_inv_find)
qed

subsection \<open>More example states, evaluated\<close>

lemma ex_tracker_t1_eq:
  "trackers ex_tracked ! 0 =
    \<lparr>suspended_frames_manager = True,
     frame_id_to_frame = [(200, ex_top), (100, ex_caller)],
     frame_id_to_main_thread_id = [(200, ''t1''), (100, ''t1'')],
     thread_id_to_frame_ids = [(''t1'', [200, 100])],
     frame_id_to_lineno = [(200, 7)], main_thread_id = Some ''t1'',
     untracked = False,
     variable_reference_to_variable =
       [(200, FrameVariable ex_top), (100, FrameVariable ex_caller)]\<rparr>"
  by (simp add: ex_tracked_eq)

lemma ex_shared_value_eq:
  "ex_shared_value =
    \<lparr>thread_id_to_fake_frames = [], thread_id_to_tracker = [(''t1'', 0), (''t2'', 1)],
     variable_reference_to_frames_tracker = [(200, 0), (100, 0), (300, 1)],
     trackers =
       [(trackers ex_tracked ! 0)
          \<lparr>variable_reference_to_variable :=
             [(200, FrameVariable ex_top), (100, FrameVariable ex_caller),
              (7, ObjectVariable ''x'' 7 False (Some ''x''))]\<rparr>,
        \<lparr>suspended_frames_manager = True,
         frame_id_to_frame = [(300, ex_other)],
         frame_id_to_main_thread_id = [(300, ''t2'')],
         thread_id_to_frame_ids = [(''t2'', [300])],
         frame_id_to_lineno = [], main_thread_id = Some ''t2'',
         untracked = False,
         variable_reference_to_variable =
           [(300, FrameVariable ex_other), (7, ObjectVariable ''y'' 7 False (Some ''y''))]\<rparr>],
     stderr = []\<rparr>"
  by (simp add: ex_shared_value_def ex_tracked_eq track_def track_frame_def Let_def
      coroutine_or_main_thread_id_def dict_setdefault_def register_variable_def
      FramesTracker_init_def ex_other_def ex_env_def on_tracker_def obtain_as_variable_def
      new_ObjectVariable_eq)

lemma ex_shared_coroutine_eq:
  "ex_shared_coroutine =
    \<lparr>thread_id_to_fake_frames = [], thread_id_to_tracker = [(''t1'', 0), (''c2'', 1)],
     variable_reference_to_frames_tracker = [(200, 0), (100, 0), (300, 1)],
     trackers =
       [(trackers ex_tracked ! 0)
          \<lparr>variable_reference_to_variable :=
             [(200, FrameVariable ex_top), (100, FrameVariable ex_caller),
              (7, ObjectVariable ''x'' 7 False (Some ''x''))]\<rparr>,
        \<lparr>suspended_frames_manager = True,
         frame_id_to_frame = [(300, ex_other)],
         frame_id_to_main_thread_id = [(300, ''t2'')],
         thread_id_to_frame_ids = [(''c2'', [300])],
         frame_id_to_lineno = [], main_thread_id = Some ''t2'',
         untracked = False,
         variable_reference_to_variable =
           [(300, FrameVariable ex_other), (7, ObjectVariable ''y'' 7 False (Some ''y''))]\<rparr>],
     stderr = []\<rparr>"
  by (simp add: ex_shared_coroutine_def ex_tracked_eq track_def track_frame_def Let_def
      coroutine_or_main_thread_id_def dict_setdefault_def register_variable_def
      FramesTracker_init_def ex_other_def ex_env_def on_tracker_def obtain_as_variable_def
      new_ObjectVariable_eq)

lemma ex_shared_value_untrack:
  "untrack_all 0 ex_shared_value =
    (Inr (),
     \<lparr>thread_id_to_fake_frames = [], thread_id_to_tracker = [(''t2'', 1)],
      variable_reference_to_frames_tracker = [(300, 1)],
      trackers =
        [clear_tracker ((trackers ex_tracked ! 0)\<lparr>untracked := True\<rparr>),
         \<lparr>suspended_frames_manager = True,
          frame_id_to_frame = [(300, ex_other)],
          frame_id_to_main_thread_id = [(300, ''t2'')],
          thread_id_to_frame_ids = [(''t2'', [300])],
          frame_id_to_lineno = [], main_thread_id = Some ''t2'',
          untracked = False,
          variable_reference_to_variable =
            [(300, FrameVariable ex_other), (7, ObjectVariable ''y'' 7 False (Some ''y''))]\<rparr>],
      stderr = []\<rparr>)"
  by (simp add: ex_shared_value_eq ex_tracker_t1_eq untrack_all_def Let_def dict_del_def
      clear_tracker_def)

lemma ex_tracked_twice_eq:
  "ex_tracked_twice =
    \<lparr>thread_id_to_fake_frames = [], thread_id_to_tracker = [(''t1'', 1)],
     variable_reference_to_frames_tracker = [(200, 1), (100, 1)],
     trackers =
       [trackers ex_tracked ! 0, (trackers ex_tracked ! 0)\<lparr>frame_id_to_lineno := []\<rparr>],
     stderr =
       [StderrWrite (''pydevd: Something is wrong. Tracker being added twice to the same thread id.''
          @ [CHR 0x0A])]\<rparr>"
  by (simp add: ex_tracked_twice_def ex_tracked_eq track_def track_frame_def Let_def
      coroutine_or_main_thread_id_def dict_setdefault_def register_variable_def
      FramesTracker_init_def ex_top_def ex_caller_def ex_env_def)

lemma ex_tracked_twice_untrack:
  "untrack_all 0 ex_tracked_twice =
    (Inr (),
     \<lparr>thread_id_to_fake_frames = [], thread_id_to_tracker = [],
      variable_reference_to_frames_tracker = [],
      trackers =
        [clear_tracker ((trackers ex_tracked ! 0)\<lparr>untracked := True\<rparr>),
         (trackers ex_tracked ! 0)\<lparr>frame_id_to_lineno := []\<rparr>],
      stderr =
        [StderrWrite (''pydevd: Something is wrong. Tracker being added twice to the same thread id.''
           @ [CHR 0x0A])]\<rparr>)"
  by (simp add: ex_tracked_twice_eq ex_tracker_t1_eq untrack_all_def Let_def dict_del_def
      clear_tracker_def)

lemma ex_first_untracked_untrack:
  "untrack_all 1 ex_first_untracked =
    (Inl KeyError,
     ex_first_untracked
       \<lparr>trackers :=
          [clear_tracker ((trackers ex_tracked ! 0)\<lparr>untracked := True\<rparr>),
           (trackers ex_tracked ! 0)\<lparr>frame_id_to_lineno := [], untracked := True\<rparr>]\<rparr>)"
  unfolding ex_first_untracked_def ex_tracked_twice_untrack snd_conv
  by (simp add: ex_tracker_t1_eq untrack_all_def Let_def dict_del_def clear_tracker_def)

subsection \<open>The example states are reached\<close>

lemma ex_two_trackers_reachable: "reachable ex_env apart ex_two_trackers"
  unfolding ex_two_trackers_def by (intro reach_new reach_init)

lemma ex_tracked_reachable: "reachable ex_env apart ex_tracked"
  unfolding ex_tracked_def
proof (rule reach_track [OF ex_two_trackers_reachable])
  show "0 < length (trackers ex_two_trackers)" by (simp add: ex_two_trackers_eq)
  show "apart \<longrightarrow> frames_apart 0 (Some ex_top) ex_two_trackers"
    by (simp add: frames_apart_def ex_two_trackers_eq FramesTracker_init_def nth_Cons'
        ex_top_def ex_caller_def)
qed

lemma ex_other_tracked_reachable:
  "reachable ex_env apart (snd (track ex_env 1 ''t2'' (Some ex_other) [] custom ex_tracked))"
proof (rule reach_track [OF ex_tracked_reachable])
  show "1 < length (trackers ex_tracked)" by (simp add: ex_tracked_eq)
  show "apart \<longrightarrow> frames_apart 1 (Some ex_other) ex_tracked"
    by (auto simp: frames_apart_def ex_tracked_eq ex_other_def less_Suc_eq)
qed

lemma ex_shared_value_reachable: "reachable ex_env apart ex_shared_value"
  unfolding ex_shared_value_def
  by (intro reach_obtain ex_other_tracked_reachable)
    (simp_all add: on_tracker_def track_manager(3) ex_tracked_eq FramesTracker_init_def)

lemma ex_shared_coroutine_reachable: "reachable ex_env apart ex_shared_coroutine"
  unfolding ex_shared_coroutine_def
  by (intro reach_obtain ex_other_tracked_reachable)
    (simp_all add: on_tracker_def track_manager(3) ex_tracked_eq FramesTracker_init_def)

lemma ex_tracked_twice_reachable: "reachable ex_env False ex_tracked_twice"
  unfolding ex_tracked_twice_def
  by (rule reach_track [OF ex_tracked_reachable]) (simp_all add: ex_tracked_eq)

end
